theory Spec2Isabelle
  imports Main "HOL-Library.Word"
begin

unbundle bit_operations_syntax

section \<open>OpenFlow action translation (lib/ofp-actions.c)\<close>

text \<open>
  A shallow embedding of the action codec of \<^verbatim>\<open>lib/ofp-actions.c\<close>: the parsers
  for OpenFlow 1.0 actions and OpenFlow 1.1 instructions (with the Nicira vendor
  extension reachable from both), the OpenFlow 1.0 and Nicira emitters, and the
  output-port query.  Wire data are lists of bytes, multi-byte fields are big-endian,
  the list of internal actions is a list of \<open>ofpact\<close> entries.
\<close>

subsection \<open>Wire primitives\<close>

type_synonym bytes = "8 word list"

text \<open>
  \<open>ntohs bs\<close> reads the 16-bit big-endian field that starts at the head of \<open>bs\<close>; a
  field at offset \<open>i\<close> of an action \<open>a\<close> is \<open>ntohs (drop i a)\<close>.  \<open>htons w\<close> is the
  field's wire image.  Likewise for 32 and 64 bits.
\<close>

definition ntohs :: "bytes \<Rightarrow> 16 word" where
  "ntohs bs = push_bit 8 (ucast (bs ! 0)) OR ucast (bs ! 1)"

definition htons :: "16 word \<Rightarrow> bytes" where
  "htons w = [ucast (drop_bit 8 w), ucast w]"

definition ntohl :: "bytes \<Rightarrow> 32 word" where
  "ntohl bs = push_bit 16 (ucast (ntohs bs)) OR ucast (ntohs (drop 2 bs))"

definition htonl :: "32 word \<Rightarrow> bytes" where
  "htonl w = htons (ucast (drop_bit 16 w)) @ htons (ucast w)"

definition ntohll :: "bytes \<Rightarrow> 64 word" where
  "ntohll bs = push_bit 32 (ucast (ntohl bs)) OR ucast (ntohl (drop 4 bs))"

definition htonll :: "64 word \<Rightarrow> bytes" where
  "htonll w = htonl (ucast (drop_bit 32 w)) @ htonl (ucast w)"

text \<open>\<open>zeros n\<close>: \<open>n\<close> bytes of zero, as \<^verbatim>\<open>ofpbuf_put_zeros\<close> and \<^verbatim>\<open>memset\<close> write them.\<close>

definition zeros :: "nat \<Rightarrow> bytes" where
  "zeros n = replicate n 0"

text \<open>\<^verbatim>\<open>is_all_zeros(p, n)\<close> of util.h.\<close>

definition is_all_zeros :: "bytes \<Rightarrow> bool" where
  "is_all_zeros bs = list_all (\<lambda>b. b = 0) bs"

subsection \<open>Error codes and return values\<close>

text \<open>
  The \<^verbatim>\<open>enum ofperr\<close> values this file returns.  \<open>OFPERR_OTHER n\<close> stands for any
  further code that a collaborator outside this file (the field registry, a
  sub-codec, the port mapping) may hand back.
\<close>

datatype ofperr =
    OFPERR_OFPBRC_BAD_LEN
  | OFPERR_OFPBAC_BAD_LEN
  | OFPERR_OFPBAC_BAD_VENDOR
  | OFPERR_OFPBAC_BAD_TYPE
  | OFPERR_OFPBAC_BAD_ARGUMENT
  | OFPERR_OFPBAC_BAD_OUT_PORT
  | OFPERR_OFPBIC_BAD_EXPERIMENTER
  | OFPERR_OFPBIC_UNKNOWN_INST
  | OFPERR_OFPBIC_BAD_LEN
  | OFPERR_OFPBIC_UNSUP_INST
  | OFPERR_NXBIC_DUP_TYPE
  | OFPERR_OTHER nat

text \<open>
  What a call yields: \<open>OK\<close> is the return value 0, \<open>Error e\<close> a nonzero
  \<^verbatim>\<open>enum ofperr\<close>, and \<open>NOT_REACHED\<close> the abort of the \<^verbatim>\<open>NOT_REACHED()\<close> macro, after
  which nothing is returned at all.
\<close>

datatype status = OK | Error ofperr | NOT_REACHED

fun status_of :: "ofperr option \<Rightarrow> status" where
  "status_of None = OK"
| "status_of (Some e) = Error e"

subsection \<open>Action codes\<close>

text \<open>
  \<^verbatim>\<open>enum ofputil_action_code\<close>: one code per row of the three action tables of
  \<^verbatim>\<open>ofp-util.def\<close>, as the \<^verbatim>\<open>switch\<close> statements of this file enumerate them.
\<close>

datatype ofputil_action_code =
    OFPUTIL_ACTION_INVALID
  | OFPUTIL_OFPAT10_OUTPUT
  | OFPUTIL_OFPAT10_SET_VLAN_VID
  | OFPUTIL_OFPAT10_SET_VLAN_PCP
  | OFPUTIL_OFPAT10_STRIP_VLAN
  | OFPUTIL_OFPAT10_SET_DL_SRC
  | OFPUTIL_OFPAT10_SET_DL_DST
  | OFPUTIL_OFPAT10_SET_NW_SRC
  | OFPUTIL_OFPAT10_SET_NW_DST
  | OFPUTIL_OFPAT10_SET_NW_TOS
  | OFPUTIL_OFPAT10_SET_TP_SRC
  | OFPUTIL_OFPAT10_SET_TP_DST
  | OFPUTIL_OFPAT10_ENQUEUE
  | OFPUTIL_OFPAT11_OUTPUT
  | OFPUTIL_OFPAT11_SET_VLAN_VID
  | OFPUTIL_OFPAT11_SET_VLAN_PCP
  | OFPUTIL_OFPAT11_SET_DL_SRC
  | OFPUTIL_OFPAT11_SET_DL_DST
  | OFPUTIL_OFPAT11_SET_NW_SRC
  | OFPUTIL_OFPAT11_SET_NW_DST
  | OFPUTIL_OFPAT11_SET_NW_TOS
  | OFPUTIL_OFPAT11_SET_TP_SRC
  | OFPUTIL_OFPAT11_SET_TP_DST
  | OFPUTIL_NXAST_RESUBMIT
  | OFPUTIL_NXAST_SET_TUNNEL
  | OFPUTIL_NXAST_SET_QUEUE
  | OFPUTIL_NXAST_POP_QUEUE
  | OFPUTIL_NXAST_REG_MOVE
  | OFPUTIL_NXAST_REG_LOAD
  | OFPUTIL_NXAST_NOTE
  | OFPUTIL_NXAST_SET_TUNNEL64
  | OFPUTIL_NXAST_MULTIPATH
  | OFPUTIL_NXAST_AUTOPATH
  | OFPUTIL_NXAST_BUNDLE
  | OFPUTIL_NXAST_BUNDLE_LOAD
  | OFPUTIL_NXAST_RESUBMIT_TABLE
  | OFPUTIL_NXAST_OUTPUT_REG
  | OFPUTIL_NXAST_LEARN
  | OFPUTIL_NXAST_EXIT
  | OFPUTIL_NXAST_DEC_TTL
  | OFPUTIL_NXAST_FIN_TIMEOUT
  | OFPUTIL_NXAST_CONTROLLER

subsection \<open>Wire constants\<close>

text \<open>
  Modelled from the spec: the headers that declare the wire formats
  (\<^verbatim>\<open>openflow-1.0.h\<close>, \<^verbatim>\<open>openflow-1.1.h\<close>, \<^verbatim>\<open>nicira-ext.h\<close>) and the action tables of
  \<^verbatim>\<open>ofp-util.def\<close> are included by this file but are not part of it.  The spec fixes
  the action and instruction alignment (8), the header layout (type at bytes 0..2,
  length at 2..4, vendor id at 4..8, vendor subtype at 8..10), the DSCP mask (0xFC)
  and, in its byte-level scenarios, the codes of OUTPUT (0), SET_VLAN_VID (1), the
  vendor escape (0xFFFF), the NX vendor id (0x00002320) and the NOTE subtype (8).  The
  remaining numbers are those of the OpenFlow 1.0 and 1.1 protocols and of the Nicira
  extension, which the spec calls bit-exact.
\<close>

abbreviation (input) OFP_ACTION_ALIGN :: nat where "OFP_ACTION_ALIGN \<equiv> 8"
abbreviation (input) OFP11_INSTRUCTION_ALIGN :: nat where "OFP11_INSTRUCTION_ALIGN \<equiv> 8"
abbreviation (input) sizeof_ofp_action :: nat where "sizeof_ofp_action \<equiv> 8"
abbreviation (input) sizeof_ofp11_instruction :: nat where "sizeof_ofp11_instruction \<equiv> 8"
abbreviation (input) sizeof_nx_action_header :: nat where "sizeof_nx_action_header \<equiv> 16"
abbreviation (input) offsetof_nx_action_note_note :: nat where "offsetof_nx_action_note_note \<equiv> 10"
abbreviation (input) ETH_ADDR_LEN :: nat where "ETH_ADDR_LEN \<equiv> 6"
abbreviation (input) IP_DSCP_MASK :: "8 word" where "IP_DSCP_MASK \<equiv> 0xfc"
abbreviation (input) NX_VENDOR_ID :: "32 word" where "NX_VENDOR_ID \<equiv> 0x00002320"
abbreviation (input) UINT32_MAX :: "64 word" where "UINT32_MAX \<equiv> 0xffffffff"

abbreviation (input) OFPP_MAX :: "16 word" where "OFPP_MAX \<equiv> 0xff00"
abbreviation (input) OFPP_IN_PORT :: "16 word" where "OFPP_IN_PORT \<equiv> 0xfff8"
abbreviation (input) OFPP_CONTROLLER :: "16 word" where "OFPP_CONTROLLER \<equiv> 0xfffd"
abbreviation (input) OFPP_LOCAL :: "16 word" where "OFPP_LOCAL \<equiv> 0xfffe"

text \<open>\<^verbatim>\<open>enum ofp10_action_type\<close>.\<close>

abbreviation (input) OFPAT10_OUTPUT :: "16 word" where "OFPAT10_OUTPUT \<equiv> 0"
abbreviation (input) OFPAT10_SET_VLAN_VID :: "16 word" where "OFPAT10_SET_VLAN_VID \<equiv> 1"
abbreviation (input) OFPAT10_SET_VLAN_PCP :: "16 word" where "OFPAT10_SET_VLAN_PCP \<equiv> 2"
abbreviation (input) OFPAT10_STRIP_VLAN :: "16 word" where "OFPAT10_STRIP_VLAN \<equiv> 3"
abbreviation (input) OFPAT10_SET_DL_SRC :: "16 word" where "OFPAT10_SET_DL_SRC \<equiv> 4"
abbreviation (input) OFPAT10_SET_DL_DST :: "16 word" where "OFPAT10_SET_DL_DST \<equiv> 5"
abbreviation (input) OFPAT10_SET_NW_SRC :: "16 word" where "OFPAT10_SET_NW_SRC \<equiv> 6"
abbreviation (input) OFPAT10_SET_NW_DST :: "16 word" where "OFPAT10_SET_NW_DST \<equiv> 7"
abbreviation (input) OFPAT10_SET_NW_TOS :: "16 word" where "OFPAT10_SET_NW_TOS \<equiv> 8"
abbreviation (input) OFPAT10_SET_TP_SRC :: "16 word" where "OFPAT10_SET_TP_SRC \<equiv> 9"
abbreviation (input) OFPAT10_SET_TP_DST :: "16 word" where "OFPAT10_SET_TP_DST \<equiv> 10"
abbreviation (input) OFPAT10_ENQUEUE :: "16 word" where "OFPAT10_ENQUEUE \<equiv> 11"
abbreviation (input) OFPAT10_VENDOR :: "16 word" where "OFPAT10_VENDOR \<equiv> 0xffff"

text \<open>\<^verbatim>\<open>enum ofp11_action_type\<close>, the rows that \<^verbatim>\<open>ofp-util.def\<close> lists.\<close>

abbreviation (input) OFPAT11_OUTPUT :: "16 word" where "OFPAT11_OUTPUT \<equiv> 0"
abbreviation (input) OFPAT11_SET_VLAN_VID :: "16 word" where "OFPAT11_SET_VLAN_VID \<equiv> 1"
abbreviation (input) OFPAT11_SET_VLAN_PCP :: "16 word" where "OFPAT11_SET_VLAN_PCP \<equiv> 2"
abbreviation (input) OFPAT11_SET_DL_SRC :: "16 word" where "OFPAT11_SET_DL_SRC \<equiv> 3"
abbreviation (input) OFPAT11_SET_DL_DST :: "16 word" where "OFPAT11_SET_DL_DST \<equiv> 4"
abbreviation (input) OFPAT11_SET_NW_SRC :: "16 word" where "OFPAT11_SET_NW_SRC \<equiv> 5"
abbreviation (input) OFPAT11_SET_NW_DST :: "16 word" where "OFPAT11_SET_NW_DST \<equiv> 6"
abbreviation (input) OFPAT11_SET_NW_TOS :: "16 word" where "OFPAT11_SET_NW_TOS \<equiv> 7"
abbreviation (input) OFPAT11_SET_TP_SRC :: "16 word" where "OFPAT11_SET_TP_SRC \<equiv> 9"
abbreviation (input) OFPAT11_SET_TP_DST :: "16 word" where "OFPAT11_SET_TP_DST \<equiv> 10"
abbreviation (input) OFPAT11_EXPERIMENTER :: "16 word" where "OFPAT11_EXPERIMENTER \<equiv> 0xffff"

text \<open>\<^verbatim>\<open>enum nx_action_subtype\<close>.\<close>

abbreviation (input) NXAST_SNAT__OBSOLETE :: "16 word" where "NXAST_SNAT__OBSOLETE \<equiv> 0"
abbreviation (input) NXAST_RESUBMIT :: "16 word" where "NXAST_RESUBMIT \<equiv> 1"
abbreviation (input) NXAST_SET_TUNNEL :: "16 word" where "NXAST_SET_TUNNEL \<equiv> 2"
abbreviation (input) NXAST_DROP_SPOOFED_ARP__OBSOLETE :: "16 word" where
  "NXAST_DROP_SPOOFED_ARP__OBSOLETE \<equiv> 3"
abbreviation (input) NXAST_SET_QUEUE :: "16 word" where "NXAST_SET_QUEUE \<equiv> 4"
abbreviation (input) NXAST_POP_QUEUE :: "16 word" where "NXAST_POP_QUEUE \<equiv> 5"
abbreviation (input) NXAST_REG_MOVE :: "16 word" where "NXAST_REG_MOVE \<equiv> 6"
abbreviation (input) NXAST_REG_LOAD :: "16 word" where "NXAST_REG_LOAD \<equiv> 7"
abbreviation (input) NXAST_NOTE :: "16 word" where "NXAST_NOTE \<equiv> 8"
abbreviation (input) NXAST_SET_TUNNEL64 :: "16 word" where "NXAST_SET_TUNNEL64 \<equiv> 9"
abbreviation (input) NXAST_MULTIPATH :: "16 word" where "NXAST_MULTIPATH \<equiv> 10"
abbreviation (input) NXAST_AUTOPATH :: "16 word" where "NXAST_AUTOPATH \<equiv> 11"
abbreviation (input) NXAST_BUNDLE :: "16 word" where "NXAST_BUNDLE \<equiv> 12"
abbreviation (input) NXAST_BUNDLE_LOAD :: "16 word" where "NXAST_BUNDLE_LOAD \<equiv> 13"
abbreviation (input) NXAST_RESUBMIT_TABLE :: "16 word" where "NXAST_RESUBMIT_TABLE \<equiv> 14"
abbreviation (input) NXAST_OUTPUT_REG :: "16 word" where "NXAST_OUTPUT_REG \<equiv> 15"
abbreviation (input) NXAST_LEARN :: "16 word" where "NXAST_LEARN \<equiv> 16"
abbreviation (input) NXAST_EXIT :: "16 word" where "NXAST_EXIT \<equiv> 17"
abbreviation (input) NXAST_DEC_TTL :: "16 word" where "NXAST_DEC_TTL \<equiv> 18"
abbreviation (input) NXAST_FIN_TIMEOUT :: "16 word" where "NXAST_FIN_TIMEOUT \<equiv> 19"
abbreviation (input) NXAST_CONTROLLER :: "16 word" where "NXAST_CONTROLLER \<equiv> 20"

text \<open>\<^verbatim>\<open>enum ofp11_instruction_type\<close>.\<close>

abbreviation (input) OFPIT11_GOTO_TABLE :: "16 word" where "OFPIT11_GOTO_TABLE \<equiv> 1"
abbreviation (input) OFPIT11_WRITE_METADATA :: "16 word" where "OFPIT11_WRITE_METADATA \<equiv> 2"
abbreviation (input) OFPIT11_WRITE_ACTIONS :: "16 word" where "OFPIT11_WRITE_ACTIONS \<equiv> 3"
abbreviation (input) OFPIT11_APPLY_ACTIONS :: "16 word" where "OFPIT11_APPLY_ACTIONS \<equiv> 4"
abbreviation (input) OFPIT11_CLEAR_ACTIONS :: "16 word" where "OFPIT11_CLEAR_ACTIONS \<equiv> 5"
abbreviation (input) OFPIT11_EXPERIMENTER :: "16 word" where "OFPIT11_EXPERIMENTER \<equiv> 0xffff"

text \<open>
  The table \<^verbatim>\<open>OFPAT10_ACTION(ENUM, STRUCT, NAME)\<close> of \<^verbatim>\<open>ofp-util.def\<close>: wire type,
  action code, \<^verbatim>\<open>sizeof(struct STRUCT)\<close>.
\<close>

definition ofpat10_actions :: "(16 word \<times> ofputil_action_code \<times> nat) list" where
  "ofpat10_actions =
    [(OFPAT10_OUTPUT,       OFPUTIL_OFPAT10_OUTPUT,       8),
     (OFPAT10_SET_VLAN_VID, OFPUTIL_OFPAT10_SET_VLAN_VID, 8),
     (OFPAT10_SET_VLAN_PCP, OFPUTIL_OFPAT10_SET_VLAN_PCP, 8),
     (OFPAT10_STRIP_VLAN,   OFPUTIL_OFPAT10_STRIP_VLAN,   8),
     (OFPAT10_SET_DL_SRC,   OFPUTIL_OFPAT10_SET_DL_SRC,   16),
     (OFPAT10_SET_DL_DST,   OFPUTIL_OFPAT10_SET_DL_DST,   16),
     (OFPAT10_SET_NW_SRC,   OFPUTIL_OFPAT10_SET_NW_SRC,   8),
     (OFPAT10_SET_NW_DST,   OFPUTIL_OFPAT10_SET_NW_DST,   8),
     (OFPAT10_SET_NW_TOS,   OFPUTIL_OFPAT10_SET_NW_TOS,   8),
     (OFPAT10_SET_TP_SRC,   OFPUTIL_OFPAT10_SET_TP_SRC,   8),
     (OFPAT10_SET_TP_DST,   OFPUTIL_OFPAT10_SET_TP_DST,   8),
     (OFPAT10_ENQUEUE,      OFPUTIL_OFPAT10_ENQUEUE,      16)]"

text \<open>The table \<^verbatim>\<open>OFPAT11_ACTION(ENUM, STRUCT, NAME)\<close>.\<close>

definition ofpat11_actions :: "(16 word \<times> ofputil_action_code \<times> nat) list" where
  "ofpat11_actions =
    [(OFPAT11_OUTPUT,       OFPUTIL_OFPAT11_OUTPUT,       16),
     (OFPAT11_SET_VLAN_VID, OFPUTIL_OFPAT11_SET_VLAN_VID, 8),
     (OFPAT11_SET_VLAN_PCP, OFPUTIL_OFPAT11_SET_VLAN_PCP, 8),
     (OFPAT11_SET_DL_SRC,   OFPUTIL_OFPAT11_SET_DL_SRC,   16),
     (OFPAT11_SET_DL_DST,   OFPUTIL_OFPAT11_SET_DL_DST,   16),
     (OFPAT11_SET_NW_SRC,   OFPUTIL_OFPAT11_SET_NW_SRC,   8),
     (OFPAT11_SET_NW_DST,   OFPUTIL_OFPAT11_SET_NW_DST,   8),
     (OFPAT11_SET_NW_TOS,   OFPUTIL_OFPAT11_SET_NW_TOS,   8),
     (OFPAT11_SET_TP_SRC,   OFPUTIL_OFPAT11_SET_TP_SRC,   8),
     (OFPAT11_SET_TP_DST,   OFPUTIL_OFPAT11_SET_TP_DST,   8)]"

text \<open>
  The table \<^verbatim>\<open>NXAST_ACTION(ENUM, STRUCT, EXTENSIBLE, NAME)\<close>: subtype, action code,
  \<^verbatim>\<open>sizeof(struct STRUCT)\<close>, extensible.  The two obsolete subtypes have no row.
\<close>

definition nxast_actions :: "(16 word \<times> ofputil_action_code \<times> nat \<times> bool) list" where
  "nxast_actions =
    [(NXAST_RESUBMIT,       OFPUTIL_NXAST_RESUBMIT,       16, False),
     (NXAST_SET_TUNNEL,     OFPUTIL_NXAST_SET_TUNNEL,     16, False),
     (NXAST_SET_QUEUE,      OFPUTIL_NXAST_SET_QUEUE,      16, False),
     (NXAST_POP_QUEUE,      OFPUTIL_NXAST_POP_QUEUE,      16, False),
     (NXAST_REG_MOVE,       OFPUTIL_NXAST_REG_MOVE,       24, False),
     (NXAST_REG_LOAD,       OFPUTIL_NXAST_REG_LOAD,       24, False),
     (NXAST_NOTE,           OFPUTIL_NXAST_NOTE,           16, True),
     (NXAST_SET_TUNNEL64,   OFPUTIL_NXAST_SET_TUNNEL64,   24, False),
     (NXAST_MULTIPATH,      OFPUTIL_NXAST_MULTIPATH,      32, False),
     (NXAST_AUTOPATH,       OFPUTIL_NXAST_AUTOPATH,       24, False),
     (NXAST_BUNDLE,         OFPUTIL_NXAST_BUNDLE,         32, True),
     (NXAST_BUNDLE_LOAD,    OFPUTIL_NXAST_BUNDLE_LOAD,    32, True),
     (NXAST_RESUBMIT_TABLE, OFPUTIL_NXAST_RESUBMIT_TABLE, 16, False),
     (NXAST_OUTPUT_REG,     OFPUTIL_NXAST_OUTPUT_REG,     24, False),
     (NXAST_LEARN,          OFPUTIL_NXAST_LEARN,          32, True),
     (NXAST_EXIT,           OFPUTIL_NXAST_EXIT,           16, False),
     (NXAST_DEC_TTL,        OFPUTIL_NXAST_DEC_TTL,        16, False),
     (NXAST_FIN_TIMEOUT,    OFPUTIL_NXAST_FIN_TIMEOUT,    16, False),
     (NXAST_CONTROLLER,     OFPUTIL_NXAST_CONTROLLER,     16, False)]"

subsection \<open>The internal action list\<close>

text \<open>
  A field of the flow model (\<^verbatim>\<open>struct mf_field\<close>) is known here only by its identity;
  a sub-codec's entry (\<^verbatim>\<open>bundle\<close>, \<^verbatim>\<open>learn\<close>, \<^verbatim>\<open>multipath\<close>, \<^verbatim>\<open>autopath\<close>,
  \<^verbatim>\<open>reg_move\<close>, \<^verbatim>\<open>reg_load\<close>) only as the bytes of its struct.
\<close>

type_synonym mf_field = nat
type_synonym opaque = bytes

record mf_subfield =
  field :: "mf_field option"
  ofs :: nat
  n_bits :: nat

text \<open>
  \<^verbatim>\<open>enum ofpact_type\<close> with each type's payload (\<^verbatim>\<open>struct ofpact_output\<close> and so on).
  IPv4 addresses are kept in network byte order by the source; the model holds the
  four bytes as the 32-bit number they spell.  A note holds its \<^verbatim>\<open>length\<close> bytes.
\<close>

datatype ofpact_type =
    OFPACT_END
  | OFPACT_OUTPUT "16 word" "16 word"
  | OFPACT_CONTROLLER "16 word" "16 word" "8 word"
  | OFPACT_ENQUEUE "16 word" "32 word"
  | OFPACT_OUTPUT_REG mf_subfield "16 word"
  | OFPACT_BUNDLE opaque
  | OFPACT_SET_VLAN_VID "16 word"
  | OFPACT_SET_VLAN_PCP "8 word"
  | OFPACT_STRIP_VLAN
  | OFPACT_SET_ETH_SRC bytes
  | OFPACT_SET_ETH_DST bytes
  | OFPACT_SET_IPV4_SRC "32 word"
  | OFPACT_SET_IPV4_DST "32 word"
  | OFPACT_SET_IPV4_DSCP "8 word"
  | OFPACT_SET_L4_SRC_PORT "16 word"
  | OFPACT_SET_L4_DST_PORT "16 word"
  | OFPACT_REG_MOVE opaque
  | OFPACT_REG_LOAD opaque
  | OFPACT_DEC_TTL
  | OFPACT_SET_TUNNEL "64 word"
  | OFPACT_SET_QUEUE "32 word"
  | OFPACT_POP_QUEUE
  | OFPACT_FIN_TIMEOUT "16 word" "16 word"
  | OFPACT_RESUBMIT "16 word" "8 word"
  | OFPACT_LEARN opaque
  | OFPACT_MULTIPATH opaque
  | OFPACT_AUTOPATH opaque
  | OFPACT_NOTE bytes
  | OFPACT_EXIT

text \<open>
  \<^verbatim>\<open>struct ofpact\<close>: the header every entry starts with.  \<open>type\<close> carries the tag and
  the payload, \<open>compat\<close> the wire opcode the entry was parsed from.  The header's
  \<^verbatim>\<open>len\<close> and the padding between entries are the distance to the next list element.
\<close>

record ofpact =
  compat :: ofputil_action_code
  type :: ofpact_type

text \<open>
  \<^verbatim>\<open>ofpact_put\<close> with \<^verbatim>\<open>ofpact_init\<close>: append a zeroed entry of the given type whose
  \<open>compat\<close> is \<^verbatim>\<open>OFPUTIL_ACTION_INVALID\<close>; the caller's field stores are the payload.
\<close>

definition ofpact_put :: "ofpact list \<Rightarrow> ofpact_type \<Rightarrow> ofpact list" where
  "ofpact_put out t = out @ [\<lparr>compat = OFPUTIL_ACTION_INVALID, type = t\<rparr>]"

text \<open>The same with \<^verbatim>\<open>ofpact.compat\<close> stored afterwards.\<close>

definition ofpact_put_compat ::
  "ofpact list \<Rightarrow> ofputil_action_code \<Rightarrow> ofpact_type \<Rightarrow> ofpact list" where
  "ofpact_put_compat out c t = out @ [\<lparr>compat = c, type = t\<rparr>]"

subsection \<open>Collaborators outside this file\<close>

text \<open>
  The functions of other modules that the codec calls (\<^verbatim>\<open>ofp-util.c\<close>,
  \<^verbatim>\<open>meta-flow.c\<close>, \<^verbatim>\<open>nx-match.c\<close>, \<^verbatim>\<open>bundle.c\<close>, \<^verbatim>\<open>learn.c\<close>, \<^verbatim>\<open>multipath.c\<close>,
  \<^verbatim>\<open>autopath.c\<close>) are parameters of the model.  A parser of a sub-codec is handed
  the action unit and yields its return value with what it appended to the list (or
  with the payload it stored into the entry it was handed); an emitter yields the
  bytes it appends.
\<close>

record ext =
  ofputil_check_output_port :: "16 word \<Rightarrow> 16 word \<Rightarrow> ofperr option"
  ofputil_port_from_ofp11 :: "32 word \<Rightarrow> ofperr + 16 word"
  mf_from_nxm_header :: "32 word \<Rightarrow> mf_field option"
  mf_nxm_header :: "mf_field \<Rightarrow> 32 word"
  mf_check_src :: "mf_subfield \<Rightarrow> ofperr option"
  nxm_decode_ofs :: "16 word \<Rightarrow> nat"
  nxm_decode_n_bits :: "16 word \<Rightarrow> nat"
  nxm_encode_ofs_nbits :: "nat \<Rightarrow> nat \<Rightarrow> 16 word"
  nxm_reg_move_from_openflow :: "bytes \<Rightarrow> ofperr option \<times> ofpact list"
  nxm_reg_load_from_openflow :: "bytes \<Rightarrow> ofperr option \<times> ofpact list"
  bundle_from_openflow :: "bytes \<Rightarrow> ofperr option \<times> ofpact list"
  learn_from_openflow :: "bytes \<Rightarrow> ofperr option \<times> ofpact list"
  multipath_from_openflow :: "bytes \<Rightarrow> ofperr option \<times> opaque"
  autopath_from_openflow :: "bytes \<Rightarrow> ofperr option \<times> opaque"
  nxm_reg_move_to_openflow :: "opaque \<Rightarrow> bytes"
  nxm_reg_load_to_openflow :: "opaque \<Rightarrow> bytes"
  bundle_to_openflow :: "opaque \<Rightarrow> bytes"
  learn_to_openflow :: "opaque \<Rightarrow> bytes"
  multipath_to_openflow :: "opaque \<Rightarrow> bytes"
  autopath_to_openflow :: "opaque \<Rightarrow> bytes"

subsection \<open>Converting OpenFlow 1.0 and Nicira actions to ofpacts\<close>

text \<open>
  An action \<open>a\<close> (\<^verbatim>\<open>const union ofp_action *\<close>) is the bytes of the action unit: the
  iteration below hands each function the bytes from the unit's start up to its
  declared length, which it has checked against the remaining window.  Every function
  takes the list \<open>out\<close> built so far and yields its return value with the list as it
  left it.
\<close>

definition output_from_openflow10 :: "ext \<Rightarrow> bytes \<Rightarrow> ofpact list \<Rightarrow> status \<times> ofpact list" where
  "output_from_openflow10 E oao out =
    (let port = ntohs (drop 4 oao);
         max_len = ntohs (drop 6 oao);
         out = ofpact_put out (OFPACT_OUTPUT port max_len)
     in (status_of (ofputil_check_output_port E port OFPP_MAX), out))"

definition enqueue_from_openflow10 :: "bytes \<Rightarrow> ofpact list \<Rightarrow> status \<times> ofpact list" where
  "enqueue_from_openflow10 oae out =
    (let port = ntohs (drop 4 oae);
         queue = ntohl (drop 12 oae);
         out = ofpact_put out (OFPACT_ENQUEUE port queue)
     in if port \<ge> OFPP_MAX \<and> port \<noteq> OFPP_IN_PORT \<and> port \<noteq> OFPP_LOCAL
        then (Error OFPERR_OFPBAC_BAD_OUT_PORT, out)
        else (OK, out))"

definition resubmit_from_openflow :: "bytes \<Rightarrow> ofpact list \<Rightarrow> ofpact list" where
  "resubmit_from_openflow nar out =
    ofpact_put_compat out OFPUTIL_NXAST_RESUBMIT (OFPACT_RESUBMIT (ntohs (drop 10 nar)) 0xff)"

definition resubmit_table_from_openflow :: "bytes \<Rightarrow> ofpact list \<Rightarrow> status \<times> ofpact list" where
  "resubmit_table_from_openflow nar out =
    (if nar ! 13 \<noteq> 0 \<or> nar ! 14 \<noteq> 0 \<or> nar ! 15 \<noteq> 0
     then (Error OFPERR_OFPBAC_BAD_ARGUMENT, out)
     else (OK, ofpact_put_compat out OFPUTIL_NXAST_RESUBMIT_TABLE
                 (OFPACT_RESUBMIT (ntohs (drop 10 nar)) (nar ! 12))))"

definition output_reg_from_openflow :: "ext \<Rightarrow> bytes \<Rightarrow> ofpact list \<Rightarrow> status \<times> ofpact list" where
  "output_reg_from_openflow E naor out =
    (if \<not> is_all_zeros (take 6 (drop 18 naor))
     then (Error OFPERR_OFPBAC_BAD_ARGUMENT, out)
     else
       (let src = \<lparr>field = mf_from_nxm_header E (ntohl (drop 12 naor)),
                   ofs = nxm_decode_ofs E (ntohs (drop 10 naor)),
                   n_bits = nxm_decode_n_bits E (ntohs (drop 10 naor))\<rparr>;
            max_len = ntohs (drop 16 naor);
            out = ofpact_put out (OFPACT_OUTPUT_REG src max_len)
        in (status_of (mf_check_src E src), out)))"

definition fin_timeout_from_openflow :: "bytes \<Rightarrow> ofpact list \<Rightarrow> ofpact list" where
  "fin_timeout_from_openflow naft out =
    ofpact_put out (OFPACT_FIN_TIMEOUT (ntohs (drop 10 naft)) (ntohs (drop 12 naft)))"

definition controller_from_openflow :: "bytes \<Rightarrow> ofpact list \<Rightarrow> ofpact list" where
  "controller_from_openflow nac out =
    ofpact_put out (OFPACT_CONTROLLER (ntohs (drop 10 nac)) (ntohs (drop 12 nac)) (nac ! 14))"

text \<open>
  The note's length is the action's declared length less the offset of the \<^verbatim>\<open>note\<close>
  member; that many bytes are copied from there.
\<close>

definition note_from_openflow :: "bytes \<Rightarrow> ofpact list \<Rightarrow> ofpact list" where
  "note_from_openflow nan out =
    (let len = unat (ntohs (drop 2 nan)) - offsetof_nx_action_note_note
     in ofpact_put out (OFPACT_NOTE (take len (drop offsetof_nx_action_note_note nan))))"

text \<open>
  The \<^verbatim>\<open>switch (nah->subtype)\<close> that the table generates: a row whose length test
  holds gives its code, a row whose test fails gives \<^verbatim>\<open>BAD_LEN\<close>, any other
  subtype (the two obsolete ones are spelled out in the source) gives \<^verbatim>\<open>BAD_TYPE\<close>.
\<close>

definition decode_nxast_action :: "bytes \<Rightarrow> ofperr + ofputil_action_code" where
  "decode_nxast_action a =
    (let len = unat (ntohs (drop 2 a)) in
     if len < sizeof_nx_action_header then Inl OFPERR_OFPBAC_BAD_LEN
     else if ntohl (drop 4 a) \<noteq> NX_VENDOR_ID then Inl OFPERR_OFPBAC_BAD_VENDOR
     else
       (case map_of nxast_actions (ntohs (drop 8 a)) of
          Some (code, struct_size, extensible) \<Rightarrow>
            if (if extensible then len \<ge> struct_size else len = struct_size)
            then Inr code else Inl OFPERR_OFPBAC_BAD_LEN
        | None \<Rightarrow> Inl OFPERR_OFPBAC_BAD_TYPE))"

definition decode_openflow10_action :: "bytes \<Rightarrow> ofperr + ofputil_action_code" where
  "decode_openflow10_action a =
    (if ntohs a = OFPAT10_VENDOR then decode_nxast_action a
     else
       (case map_of ofpat10_actions (ntohs a) of
          Some (code, struct_size) \<Rightarrow>
            if unat (ntohs (drop 2 a)) = struct_size
            then Inr code else Inl OFPERR_OFPBAC_BAD_LEN
        | None \<Rightarrow> Inl OFPERR_OFPBAC_BAD_TYPE))"

fun ofpact_from_nxast ::
  "ext \<Rightarrow> bytes \<Rightarrow> ofputil_action_code \<Rightarrow> ofpact list \<Rightarrow> status \<times> ofpact list" where
  "ofpact_from_nxast E a OFPUTIL_NXAST_RESUBMIT out = (OK, resubmit_from_openflow a out)"
| "ofpact_from_nxast E a OFPUTIL_NXAST_SET_TUNNEL out =
     (OK, ofpact_put_compat out OFPUTIL_NXAST_SET_TUNNEL
            (OFPACT_SET_TUNNEL (ucast (ntohl (drop 12 a)))))"
| "ofpact_from_nxast E a OFPUTIL_NXAST_SET_QUEUE out =
     (OK, ofpact_put out (OFPACT_SET_QUEUE (ntohl (drop 12 a))))"
| "ofpact_from_nxast E a OFPUTIL_NXAST_POP_QUEUE out = (OK, ofpact_put out OFPACT_POP_QUEUE)"
| "ofpact_from_nxast E a OFPUTIL_NXAST_REG_MOVE out =
     (case nxm_reg_move_from_openflow E a of (error, put) \<Rightarrow> (status_of error, out @ put))"
| "ofpact_from_nxast E a OFPUTIL_NXAST_REG_LOAD out =
     (case nxm_reg_load_from_openflow E a of (error, put) \<Rightarrow> (status_of error, out @ put))"
| "ofpact_from_nxast E a OFPUTIL_NXAST_NOTE out = (OK, note_from_openflow a out)"
| "ofpact_from_nxast E a OFPUTIL_NXAST_SET_TUNNEL64 out =
     (OK, ofpact_put_compat out OFPUTIL_NXAST_SET_TUNNEL64
            (OFPACT_SET_TUNNEL (ntohll (drop 16 a))))"
| "ofpact_from_nxast E a OFPUTIL_NXAST_MULTIPATH out =
     (case multipath_from_openflow E a of
        (error, mp) \<Rightarrow> (status_of error, ofpact_put out (OFPACT_MULTIPATH mp)))"
| "ofpact_from_nxast E a OFPUTIL_NXAST_AUTOPATH out =
     (case autopath_from_openflow E a of
        (error, ap) \<Rightarrow> (status_of error, ofpact_put out (OFPACT_AUTOPATH ap)))"
| "ofpact_from_nxast E a OFPUTIL_NXAST_BUNDLE out =
     (case bundle_from_openflow E a of (error, put) \<Rightarrow> (status_of error, out @ put))"
| "ofpact_from_nxast E a OFPUTIL_NXAST_BUNDLE_LOAD out =
     (case bundle_from_openflow E a of (error, put) \<Rightarrow> (status_of error, out @ put))"
| "ofpact_from_nxast E a OFPUTIL_NXAST_OUTPUT_REG out = output_reg_from_openflow E a out"
| "ofpact_from_nxast E a OFPUTIL_NXAST_RESUBMIT_TABLE out = resubmit_table_from_openflow a out"
| "ofpact_from_nxast E a OFPUTIL_NXAST_LEARN out =
     (case learn_from_openflow E a of (error, put) \<Rightarrow> (status_of error, out @ put))"
| "ofpact_from_nxast E a OFPUTIL_NXAST_EXIT out = (OK, ofpact_put out OFPACT_EXIT)"
| "ofpact_from_nxast E a OFPUTIL_NXAST_DEC_TTL out = (OK, ofpact_put out OFPACT_DEC_TTL)"
| "ofpact_from_nxast E a OFPUTIL_NXAST_FIN_TIMEOUT out = (OK, fin_timeout_from_openflow a out)"
| "ofpact_from_nxast E a OFPUTIL_NXAST_CONTROLLER out = (OK, controller_from_openflow a out)"
| "ofpact_from_nxast E a _ out = (NOT_REACHED, out)"

text \<open>
  The field tests are written on the host-order value: \<^verbatim>\<open>vlan_vid & ~htons(0xfff)\<close>
  on the network-order field is nonzero exactly when \<open>ntohs vlan_vid AND NOT 0xfff\<close>
  is.
\<close>

fun ofpact_from_openflow10_code ::
  "ext \<Rightarrow> bytes \<Rightarrow> ofputil_action_code \<Rightarrow> ofpact list \<Rightarrow> status \<times> ofpact list" where
  "ofpact_from_openflow10_code E a OFPUTIL_OFPAT10_OUTPUT out = output_from_openflow10 E a out"
| "ofpact_from_openflow10_code E a OFPUTIL_OFPAT10_SET_VLAN_VID out =
     (if ntohs (drop 4 a) AND NOT 0xfff \<noteq> 0 then (Error OFPERR_OFPBAC_BAD_ARGUMENT, out)
      else (OK, ofpact_put out (OFPACT_SET_VLAN_VID (ntohs (drop 4 a)))))"
| "ofpact_from_openflow10_code E a OFPUTIL_OFPAT10_SET_VLAN_PCP out =
     (if (a ! 4) AND NOT 7 \<noteq> 0 then (Error OFPERR_OFPBAC_BAD_ARGUMENT, out)
      else (OK, ofpact_put out (OFPACT_SET_VLAN_PCP (a ! 4))))"
| "ofpact_from_openflow10_code E a OFPUTIL_OFPAT10_STRIP_VLAN out =
     (OK, ofpact_put out OFPACT_STRIP_VLAN)"
| "ofpact_from_openflow10_code E a OFPUTIL_OFPAT10_SET_DL_SRC out =
     (OK, ofpact_put out (OFPACT_SET_ETH_SRC (take ETH_ADDR_LEN (drop 4 a))))"
| "ofpact_from_openflow10_code E a OFPUTIL_OFPAT10_SET_DL_DST out =
     (OK, ofpact_put out (OFPACT_SET_ETH_DST (take ETH_ADDR_LEN (drop 4 a))))"
| "ofpact_from_openflow10_code E a OFPUTIL_OFPAT10_SET_NW_SRC out =
     (OK, ofpact_put out (OFPACT_SET_IPV4_SRC (ntohl (drop 4 a))))"
| "ofpact_from_openflow10_code E a OFPUTIL_OFPAT10_SET_NW_DST out =
     (OK, ofpact_put out (OFPACT_SET_IPV4_DST (ntohl (drop 4 a))))"
| "ofpact_from_openflow10_code E a OFPUTIL_OFPAT10_SET_NW_TOS out =
     (if (a ! 4) AND NOT IP_DSCP_MASK \<noteq> 0 then (Error OFPERR_OFPBAC_BAD_ARGUMENT, out)
      else (OK, ofpact_put out (OFPACT_SET_IPV4_DSCP (a ! 4))))"
| "ofpact_from_openflow10_code E a OFPUTIL_OFPAT10_SET_TP_SRC out =
     (OK, ofpact_put out (OFPACT_SET_L4_SRC_PORT (ntohs (drop 4 a))))"
| "ofpact_from_openflow10_code E a OFPUTIL_OFPAT10_SET_TP_DST out =
     (OK, ofpact_put out (OFPACT_SET_L4_DST_PORT (ntohs (drop 4 a))))"
| "ofpact_from_openflow10_code E a OFPUTIL_OFPAT10_ENQUEUE out = enqueue_from_openflow10 a out"
| "ofpact_from_openflow10_code E a OFPUTIL_ACTION_INVALID out = (NOT_REACHED, out)"
| "ofpact_from_openflow10_code E a OFPUTIL_OFPAT11_OUTPUT out = (NOT_REACHED, out)"
| "ofpact_from_openflow10_code E a OFPUTIL_OFPAT11_SET_VLAN_VID out = (NOT_REACHED, out)"
| "ofpact_from_openflow10_code E a OFPUTIL_OFPAT11_SET_VLAN_PCP out = (NOT_REACHED, out)"
| "ofpact_from_openflow10_code E a OFPUTIL_OFPAT11_SET_DL_SRC out = (NOT_REACHED, out)"
| "ofpact_from_openflow10_code E a OFPUTIL_OFPAT11_SET_DL_DST out = (NOT_REACHED, out)"
| "ofpact_from_openflow10_code E a OFPUTIL_OFPAT11_SET_NW_SRC out = (NOT_REACHED, out)"
| "ofpact_from_openflow10_code E a OFPUTIL_OFPAT11_SET_NW_DST out = (NOT_REACHED, out)"
| "ofpact_from_openflow10_code E a OFPUTIL_OFPAT11_SET_NW_TOS out = (NOT_REACHED, out)"
| "ofpact_from_openflow10_code E a OFPUTIL_OFPAT11_SET_TP_SRC out = (NOT_REACHED, out)"
| "ofpact_from_openflow10_code E a OFPUTIL_OFPAT11_SET_TP_DST out = (NOT_REACHED, out)"
| "ofpact_from_openflow10_code E a code out = ofpact_from_nxast E a code out"

definition ofpact_from_openflow10 :: "ext \<Rightarrow> bytes \<Rightarrow> ofpact list \<Rightarrow> status \<times> ofpact list" where
  "ofpact_from_openflow10 E a out =
    (case decode_openflow10_action a of
       Inl error \<Rightarrow> (Error error, out)
     | Inr code \<Rightarrow> ofpact_from_openflow10_code E a code out)"

text \<open>
  \<^verbatim>\<open>action_is_valid\<close> and the \<^verbatim>\<open>ACTION_FOR_EACH\<close> loop of
  \<^verbatim>\<open>ofpacts_from_openflow\<close>.  \<open>a\<close> is the window from the current action to the end
  of the pulled region, \<open>left\<close> the number of 8-byte units still to visit.
\<close>

definition action_is_valid :: "bytes \<Rightarrow> nat \<Rightarrow> bool" where
  "action_is_valid a n_actions =
    (let len = unat (ntohs (drop 2 a)) in
     len mod OFP_ACTION_ALIGN = 0 \<and> len \<ge> sizeof_ofp_action
       \<and> len div sizeof_ofp_action \<le> n_actions)"

function ofpacts_from_openflow ::
  "bytes \<Rightarrow> nat \<Rightarrow> ofpact list \<Rightarrow> (bytes \<Rightarrow> ofpact list \<Rightarrow> status \<times> ofpact list)
     \<Rightarrow> status \<times> ofpact list" where
  "ofpacts_from_openflow a left out ofpact_from_openflow =
    (if left > 0 \<and> action_is_valid a left then
       (let len = unat (ntohs (drop 2 a)) in
        case ofpact_from_openflow (take len a) out of
          (OK, out') \<Rightarrow>
            ofpacts_from_openflow (drop len a) (left - len div sizeof_ofp_action) out'
              ofpact_from_openflow
        | (error, out') \<Rightarrow> (error, out'))
     else if left \<noteq> 0 then (Error OFPERR_OFPBAC_BAD_LEN, out)
     else (OK, ofpact_put out OFPACT_END))"
  by pat_completeness auto
termination
  by (relation "measure (\<lambda>(a, left, out, f). left)")
     (auto simp: action_is_valid_def Let_def)

definition ofpacts_from_openflow10 :: "ext \<Rightarrow> bytes \<Rightarrow> nat \<Rightarrow> ofpact list \<Rightarrow> status \<times> ofpact list" where
  "ofpacts_from_openflow10 E a n_in out = ofpacts_from_openflow a n_in out (ofpact_from_openflow10 E)"

text \<open>
  Modelled from the spec: \<^verbatim>\<open>ofpbuf_try_pull\<close> (\<^verbatim>\<open>ofpbuf.c\<close>) is not part of this
  file.  By the spec the pull fails when the length exceeds the buffer; otherwise it
  hands out the first \<open>n\<close> bytes and leaves the rest in the buffer.
\<close>

definition ofpbuf_try_pull :: "bytes \<Rightarrow> nat \<Rightarrow> (bytes \<times> bytes) option" where
  "ofpbuf_try_pull b n = (if length b \<ge> n then Some (take n b, drop n b) else None)"

text \<open>
  \<^verbatim>\<open>ofpacts_pull_openflow10\<close>: the return value, the buffer \<open>openflow\<close> and the list
  \<open>ofpacts\<close> as the call leaves them.  The list is cleared first, so what it held before
  the call plays no part.
\<close>

definition ofpacts_pull_openflow10 ::
  "ext \<Rightarrow> bytes \<Rightarrow> nat \<Rightarrow> status \<times> bytes \<times> ofpact list" where
  "ofpacts_pull_openflow10 E openflow actions_len =
    (if actions_len mod OFP_ACTION_ALIGN \<noteq> 0
     then (Error OFPERR_OFPBRC_BAD_LEN, openflow, [])
     else
       (case ofpbuf_try_pull openflow actions_len of
          None \<Rightarrow> (Error OFPERR_OFPBRC_BAD_LEN, openflow, [])
        | Some (actions, openflow') \<Rightarrow>
            (case ofpacts_from_openflow10 E actions (actions_len div OFP_ACTION_ALIGN) [] of
               (OK, ofpacts) \<Rightarrow> (OK, openflow', ofpacts)
             | (Error error, ofpacts) \<Rightarrow> (OK, openflow', [])
             | (NOT_REACHED, ofpacts) \<Rightarrow> (NOT_REACHED, openflow', ofpacts))))"

subsection \<open>OpenFlow 1.1 actions\<close>

definition decode_openflow11_action :: "bytes \<Rightarrow> ofperr + ofputil_action_code" where
  "decode_openflow11_action a =
    (if ntohs a = OFPAT11_EXPERIMENTER then decode_nxast_action a
     else
       (case map_of ofpat11_actions (ntohs a) of
          Some (code, struct_size) \<Rightarrow>
            if unat (ntohs (drop 2 a)) = struct_size
            then Inr code else Inl OFPERR_OFPBAC_BAD_LEN
        | None \<Rightarrow> Inl OFPERR_OFPBAC_BAD_TYPE))"

definition output_from_openflow11 :: "ext \<Rightarrow> bytes \<Rightarrow> ofpact list \<Rightarrow> status \<times> ofpact list" where
  "output_from_openflow11 E oao out =
    (let max_len = ntohs (drop 8 oao) in
     case ofputil_port_from_ofp11 E (ntohl (drop 4 oao)) of
       Inl error \<Rightarrow> (Error error, ofpact_put out (OFPACT_OUTPUT 0 max_len))
     | Inr port \<Rightarrow>
         (status_of (ofputil_check_output_port E port OFPP_MAX),
          ofpact_put out (OFPACT_OUTPUT port max_len)))"

fun ofpact_from_openflow11_code ::
  "ext \<Rightarrow> bytes \<Rightarrow> ofputil_action_code \<Rightarrow> ofpact list \<Rightarrow> status \<times> ofpact list" where
  "ofpact_from_openflow11_code E a OFPUTIL_OFPAT11_OUTPUT out = output_from_openflow11 E a out"
| "ofpact_from_openflow11_code E a OFPUTIL_OFPAT11_SET_VLAN_VID out =
     (if ntohs (drop 4 a) AND NOT 0xfff \<noteq> 0 then (Error OFPERR_OFPBAC_BAD_ARGUMENT, out)
      else (OK, ofpact_put out (OFPACT_SET_VLAN_VID (ntohs (drop 4 a)))))"
| "ofpact_from_openflow11_code E a OFPUTIL_OFPAT11_SET_VLAN_PCP out =
     (if (a ! 4) AND NOT 7 \<noteq> 0 then (Error OFPERR_OFPBAC_BAD_ARGUMENT, out)
      else (OK, ofpact_put out (OFPACT_SET_VLAN_PCP (a ! 4))))"
| "ofpact_from_openflow11_code E a OFPUTIL_OFPAT11_SET_DL_SRC out =
     (OK, ofpact_put out (OFPACT_SET_ETH_SRC (take ETH_ADDR_LEN (drop 4 a))))"
| "ofpact_from_openflow11_code E a OFPUTIL_OFPAT11_SET_DL_DST out =
     (OK, ofpact_put out (OFPACT_SET_ETH_DST (take ETH_ADDR_LEN (drop 4 a))))"
| "ofpact_from_openflow11_code E a OFPUTIL_OFPAT11_SET_NW_SRC out =
     (OK, ofpact_put out (OFPACT_SET_IPV4_SRC (ntohl (drop 4 a))))"
| "ofpact_from_openflow11_code E a OFPUTIL_OFPAT11_SET_NW_DST out =
     (OK, ofpact_put out (OFPACT_SET_IPV4_DST (ntohl (drop 4 a))))"
| "ofpact_from_openflow11_code E a OFPUTIL_OFPAT11_SET_NW_TOS out =
     (if (a ! 4) AND NOT IP_DSCP_MASK \<noteq> 0 then (Error OFPERR_OFPBAC_BAD_ARGUMENT, out)
      else (OK, ofpact_put out (OFPACT_SET_IPV4_DSCP (a ! 4))))"
| "ofpact_from_openflow11_code E a OFPUTIL_OFPAT11_SET_TP_SRC out =
     (OK, ofpact_put out (OFPACT_SET_L4_SRC_PORT (ntohs (drop 4 a))))"
| "ofpact_from_openflow11_code E a OFPUTIL_OFPAT11_SET_TP_DST out =
     (OK, ofpact_put out (OFPACT_SET_L4_DST_PORT (ntohs (drop 4 a))))"
| "ofpact_from_openflow11_code E a OFPUTIL_ACTION_INVALID out = (NOT_REACHED, out)"
| "ofpact_from_openflow11_code E a OFPUTIL_OFPAT10_OUTPUT out = (NOT_REACHED, out)"
| "ofpact_from_openflow11_code E a OFPUTIL_OFPAT10_SET_VLAN_VID out = (NOT_REACHED, out)"
| "ofpact_from_openflow11_code E a OFPUTIL_OFPAT10_SET_VLAN_PCP out = (NOT_REACHED, out)"
| "ofpact_from_openflow11_code E a OFPUTIL_OFPAT10_STRIP_VLAN out = (NOT_REACHED, out)"
| "ofpact_from_openflow11_code E a OFPUTIL_OFPAT10_SET_DL_SRC out = (NOT_REACHED, out)"
| "ofpact_from_openflow11_code E a OFPUTIL_OFPAT10_SET_DL_DST out = (NOT_REACHED, out)"
| "ofpact_from_openflow11_code E a OFPUTIL_OFPAT10_SET_NW_SRC out = (NOT_REACHED, out)"
| "ofpact_from_openflow11_code E a OFPUTIL_OFPAT10_SET_NW_DST out = (NOT_REACHED, out)"
| "ofpact_from_openflow11_code E a OFPUTIL_OFPAT10_SET_NW_TOS out = (NOT_REACHED, out)"
| "ofpact_from_openflow11_code E a OFPUTIL_OFPAT10_SET_TP_SRC out = (NOT_REACHED, out)"
| "ofpact_from_openflow11_code E a OFPUTIL_OFPAT10_SET_TP_DST out = (NOT_REACHED, out)"
| "ofpact_from_openflow11_code E a OFPUTIL_OFPAT10_ENQUEUE out = (NOT_REACHED, out)"
| "ofpact_from_openflow11_code E a code out = ofpact_from_nxast E a code out"

definition ofpact_from_openflow11 :: "ext \<Rightarrow> bytes \<Rightarrow> ofpact list \<Rightarrow> status \<times> ofpact list" where
  "ofpact_from_openflow11 E a out =
    (case decode_openflow11_action a of
       Inl error \<Rightarrow> (Error error, out)
     | Inr code \<Rightarrow> ofpact_from_openflow11_code E a code out)"

definition ofpacts_from_openflow11 :: "ext \<Rightarrow> bytes \<Rightarrow> nat \<Rightarrow> ofpact list \<Rightarrow> status \<times> ofpact list" where
  "ofpacts_from_openflow11 E a n_in out = ofpacts_from_openflow a n_in out (ofpact_from_openflow11 E)"

subsection \<open>OpenFlow 1.1 instructions\<close>

datatype ovs_instruction_type =
    OVSINST_OFPIT11_GOTO_TABLE
  | OVSINST_OFPIT11_WRITE_METADATA
  | OVSINST_OFPIT11_WRITE_ACTIONS
  | OVSINST_OFPIT11_APPLY_ACTIONS
  | OVSINST_OFPIT11_CLEAR_ACTIONS

text \<open>
  The rows of \<^verbatim>\<open>OVS_INSTRUCTIONS\<close>, columns in the order the source writes them: the
  wire type and the enumerator it names, \<^verbatim>\<open>sizeof\<close> the struct, the Boolean, the
  string.  The struct sizes are those of \<^verbatim>\<open>openflow-1.1.h\<close>.
\<close>

definition OVS_INSTRUCTIONS ::
  "(16 word \<times> ovs_instruction_type \<times> nat \<times> bool \<times> string) list" where
  "OVS_INSTRUCTIONS =
    [(OFPIT11_GOTO_TABLE,     OVSINST_OFPIT11_GOTO_TABLE,     8,  False, ''goto_table''),
     (OFPIT11_WRITE_METADATA, OVSINST_OFPIT11_WRITE_METADATA, 24, False, ''write_metadata''),
     (OFPIT11_WRITE_ACTIONS,  OVSINST_OFPIT11_WRITE_ACTIONS,  8,  True,  ''write_actions''),
     (OFPIT11_APPLY_ACTIONS,  OVSINST_OFPIT11_APPLY_ACTIONS,  8,  True,  ''apply_actions''),
     (OFPIT11_CLEAR_ACTIONS,  OVSINST_OFPIT11_CLEAR_ACTIONS,  8,  False, ''clear_actions'')]"

text \<open>A string literal used as a C condition: a non-null pointer, hence true.\<close>

definition string_literal_as_condition :: "string \<Rightarrow> bool" where
  "string_literal_as_condition s = True"

definition instruction_is_valid :: "bytes \<Rightarrow> nat \<Rightarrow> bool" where
  "instruction_is_valid inst n_instructions =
    (let len = unat (ntohs (drop 2 inst)) in
     len mod OFP11_INSTRUCTION_ALIGN = 0 \<and> len \<ge> sizeof_ofp11_instruction
       \<and> len div sizeof_ofp11_instruction \<le> n_instructions)"

text \<open>
  In \<^verbatim>\<open>decode_openflow11_instruction\<close> the macro is declared as
  \<^verbatim>\<open>DEFINE_INST(ENUM, STRUCT, NAME, EXTENSIBLE)\<close>: its \<^verbatim>\<open>EXTENSIBLE\<close> is the fourth
  column of a row, the string, and the Boolean column goes unused.
\<close>

definition decode_openflow11_instruction :: "bytes \<Rightarrow> ofperr + ovs_instruction_type" where
  "decode_openflow11_instruction inst =
    (let len = unat (ntohs (drop 2 inst)) in
     if ntohs inst = OFPIT11_EXPERIMENTER then Inl OFPERR_OFPBIC_BAD_EXPERIMENTER
     else
       (case map_of OVS_INSTRUCTIONS (ntohs inst) of
          Some (itype, struct_size, third, fourth) \<Rightarrow>
            if (if string_literal_as_condition fourth
                then len \<ge> struct_size else len = struct_size)
            then Inr itype else Inl OFPERR_OFPBAC_BAD_LEN
        | None \<Rightarrow> Inl OFPERR_OFPBIC_UNKNOWN_INST))"

text \<open>
  The array \<^verbatim>\<open>out[N_OVS_INSTRUCTIONS]\<close> of instruction pointers is a map from the
  instruction type to the instruction's bytes; \<open>None\<close> is the null pointer.
\<close>

type_synonym insts = "ovs_instruction_type \<Rightarrow> bytes option"

function decode_openflow11_instructions_loop ::
  "bytes \<Rightarrow> nat \<Rightarrow> insts \<Rightarrow> ofperr + insts" where
  "decode_openflow11_instructions_loop inst left out =
    (if left > 0 \<and> instruction_is_valid inst left then
       (let len = unat (ntohs (drop 2 inst)) in
        case decode_openflow11_instruction (take len inst) of
          Inl error \<Rightarrow> Inl error
        | Inr itype \<Rightarrow>
            if out itype \<noteq> None then Inl OFPERR_NXBIC_DUP_TYPE
            else decode_openflow11_instructions_loop (drop len inst)
                   (left - len div sizeof_ofp11_instruction) (out(itype \<mapsto> take len inst)))
     else if left \<noteq> 0 then Inl OFPERR_OFPBIC_BAD_LEN
     else Inr out)"
  by pat_completeness auto
termination
  by (relation "measure (\<lambda>(inst, left, out). left)")
     (auto simp: instruction_is_valid_def Let_def)

definition decode_openflow11_instructions :: "bytes \<Rightarrow> nat \<Rightarrow> ofperr + insts" where
  "decode_openflow11_instructions insts n_insts =
    decode_openflow11_instructions_loop insts n_insts Map.empty"

definition get_actions_from_instruction :: "bytes \<Rightarrow> bytes \<times> nat" where
  "get_actions_from_instruction inst =
    (drop sizeof_ofp11_instruction inst,
     (unat (ntohs (drop 2 inst)) - sizeof_ofp11_instruction) div OFP11_INSTRUCTION_ALIGN)"

definition ofpacts_pull_openflow11_instructions ::
  "ext \<Rightarrow> bytes \<Rightarrow> nat \<Rightarrow> status \<times> bytes \<times> ofpact list" where
  "ofpacts_pull_openflow11_instructions E openflow instructions_len =
    (if instructions_len mod OFP11_INSTRUCTION_ALIGN \<noteq> 0
     then (Error OFPERR_OFPBRC_BAD_LEN, openflow, [])
     else
       (case ofpbuf_try_pull openflow instructions_len of
          None \<Rightarrow> (Error OFPERR_OFPBRC_BAD_LEN, openflow, [])
        | Some (instructions, openflow') \<Rightarrow>
            (case decode_openflow11_instructions instructions
                    (instructions_len div OFP11_INSTRUCTION_ALIGN) of
               Inl error \<Rightarrow> (Error error, openflow', [])
             | Inr insts \<Rightarrow>
                 (case (case insts OVSINST_OFPIT11_APPLY_ACTIONS of
                          Some inst \<Rightarrow>
                            (case get_actions_from_instruction inst of
                               (actions, n_actions) \<Rightarrow>
                                 ofpacts_from_openflow11 E actions n_actions [])
                        | None \<Rightarrow> (OK, [])) of
                    (Error error, ofpacts) \<Rightarrow> (Error error, openflow', [])
                  | (NOT_REACHED, ofpacts) \<Rightarrow> (NOT_REACHED, openflow', ofpacts)
                  | (OK, ofpacts) \<Rightarrow>
                      (let ofpacts = ofpact_put ofpacts OFPACT_END in
                       if insts OVSINST_OFPIT11_GOTO_TABLE \<noteq> None
                          \<or> insts OVSINST_OFPIT11_WRITE_METADATA \<noteq> None
                          \<or> insts OVSINST_OFPIT11_WRITE_ACTIONS \<noteq> None
                          \<or> insts OVSINST_OFPIT11_CLEAR_ACTIONS \<noteq> None
                       then (Error OFPERR_OFPBIC_UNSUP_INST, openflow', [])
                       else (OK, openflow', ofpacts))))))"

subsection \<open>Converting ofpacts to Nicira extension actions\<close>

text \<open>
  Modelled from the spec: the \<^verbatim>\<open>ofputil_put_*\<close> helpers (\<^verbatim>\<open>ofp-util.c\<close>) are not
  part of this file.  By the spec a fixed-length entry is written as its full struct,
  padding zeroed: the helper appends \<^verbatim>\<open>sizeof(struct STRUCT)\<close> zero bytes and stores
  the type and the length, and for a vendor action the NX vendor id and the subtype.
  Below, each emitter spells the struct out field by field, in wire order.
\<close>

definition nx_action_header :: "16 word \<Rightarrow> 16 word \<Rightarrow> bytes" where
  "nx_action_header subtype len =
    htons OFPAT10_VENDOR @ htons len @ htonl NX_VENDOR_ID @ htons subtype"

text \<open>
  An emitter appends to the buffer \<open>out\<close>.  \<open>None\<close> is a call that does not return:
  \<^verbatim>\<open>NOT_REACHED()\<close>, or the null field of an \<^verbatim>\<open>output_reg\<close> entry dereferenced.
\<close>

definition ofpact_output_reg_to_nxast :: "ext \<Rightarrow> mf_subfield \<Rightarrow> 16 word \<Rightarrow> bytes \<Rightarrow> bytes option" where
  "ofpact_output_reg_to_nxast E src max_len out =
    (case field src of
       None \<Rightarrow> None
     | Some f \<Rightarrow>
         Some (out @ nx_action_header NXAST_OUTPUT_REG 24
                 @ htons (nxm_encode_ofs_nbits E (ofs src) (n_bits src))
                 @ htonl (mf_nxm_header E f) @ htons max_len @ zeros 6))"

definition ofpact_resubmit_to_nxast ::
  "ofputil_action_code \<Rightarrow> 16 word \<Rightarrow> 8 word \<Rightarrow> bytes \<Rightarrow> bytes" where
  "ofpact_resubmit_to_nxast compat_hint in_port table_id out =
    (if table_id = 0xff \<and> compat_hint \<noteq> OFPUTIL_NXAST_RESUBMIT_TABLE
     then out @ nx_action_header NXAST_RESUBMIT 16 @ htons in_port @ [0] @ zeros 3
     else out @ nx_action_header NXAST_RESUBMIT_TABLE 16 @ htons in_port @ [table_id] @ zeros 3)"

definition ofpact_set_tunnel_to_nxast :: "ofputil_action_code \<Rightarrow> 64 word \<Rightarrow> bytes \<Rightarrow> bytes" where
  "ofpact_set_tunnel_to_nxast compat_hint tun_id out =
    (if tun_id \<le> UINT32_MAX \<and> compat_hint \<noteq> OFPUTIL_NXAST_SET_TUNNEL64
     then out @ nx_action_header NXAST_SET_TUNNEL 16 @ zeros 2 @ htonl (ucast tun_id)
     else out @ nx_action_header NXAST_SET_TUNNEL64 24 @ zeros 6 @ htonll tun_id)"

text \<open>
  The note: the header without its six \<^verbatim>\<open>note\<close> bytes, the data, zeros up to the next
  multiple of 8, and the length patched to the total (a 16-bit field).
\<close>

definition ofpact_note_to_nxast :: "bytes \<Rightarrow> bytes \<Rightarrow> bytes" where
  "ofpact_note_to_nxast data out =
    (let len = offsetof_nx_action_note_note + length data;
         remainder = len mod OFP_ACTION_ALIGN;
         pad = (if remainder \<noteq> 0 then OFP_ACTION_ALIGN - remainder else 0)
     in out @ nx_action_header NXAST_NOTE (of_nat (len + pad)) @ data @ zeros pad)"

definition ofpact_controller_to_nxast :: "16 word \<Rightarrow> 16 word \<Rightarrow> 8 word \<Rightarrow> bytes \<Rightarrow> bytes" where
  "ofpact_controller_to_nxast max_len controller_id reason out =
    out @ nx_action_header NXAST_CONTROLLER 16
        @ htons max_len @ htons controller_id @ [reason] @ zeros 1"

definition ofpact_fin_timeout_to_nxast :: "16 word \<Rightarrow> 16 word \<Rightarrow> bytes \<Rightarrow> bytes" where
  "ofpact_fin_timeout_to_nxast fin_idle_timeout fin_hard_timeout out =
    out @ nx_action_header NXAST_FIN_TIMEOUT 16
        @ htons fin_idle_timeout @ htons fin_hard_timeout @ zeros 2"

fun ofpact_to_nxast_type :: "ext \<Rightarrow> ofputil_action_code \<Rightarrow> ofpact_type \<Rightarrow> bytes \<Rightarrow> bytes option" where
  "ofpact_to_nxast_type E c (OFPACT_CONTROLLER max_len controller_id reason) out =
     Some (ofpact_controller_to_nxast max_len controller_id reason out)"
| "ofpact_to_nxast_type E c (OFPACT_OUTPUT_REG src max_len) out =
     ofpact_output_reg_to_nxast E src max_len out"
| "ofpact_to_nxast_type E c (OFPACT_BUNDLE b) out = Some (out @ bundle_to_openflow E b)"
| "ofpact_to_nxast_type E c (OFPACT_REG_MOVE m) out = Some (out @ nxm_reg_move_to_openflow E m)"
| "ofpact_to_nxast_type E c (OFPACT_REG_LOAD l) out = Some (out @ nxm_reg_load_to_openflow E l)"
| "ofpact_to_nxast_type E c OFPACT_DEC_TTL out =
     Some (out @ nx_action_header NXAST_DEC_TTL 16 @ zeros 6)"
| "ofpact_to_nxast_type E c (OFPACT_SET_TUNNEL tun_id) out =
     Some (ofpact_set_tunnel_to_nxast c tun_id out)"
| "ofpact_to_nxast_type E c (OFPACT_SET_QUEUE queue_id) out =
     Some (out @ nx_action_header NXAST_SET_QUEUE 16 @ zeros 2 @ htonl queue_id)"
| "ofpact_to_nxast_type E c OFPACT_POP_QUEUE out =
     Some (out @ nx_action_header NXAST_POP_QUEUE 16 @ zeros 6)"
| "ofpact_to_nxast_type E c (OFPACT_FIN_TIMEOUT idle hard) out =
     Some (ofpact_fin_timeout_to_nxast idle hard out)"
| "ofpact_to_nxast_type E c (OFPACT_RESUBMIT in_port table_id) out =
     Some (ofpact_resubmit_to_nxast c in_port table_id out)"
| "ofpact_to_nxast_type E c (OFPACT_LEARN l) out = Some (out @ learn_to_openflow E l)"
| "ofpact_to_nxast_type E c (OFPACT_MULTIPATH m) out = Some (out @ multipath_to_openflow E m)"
| "ofpact_to_nxast_type E c (OFPACT_AUTOPATH p) out = Some (out @ autopath_to_openflow E p)"
| "ofpact_to_nxast_type E c (OFPACT_NOTE data) out = Some (ofpact_note_to_nxast data out)"
| "ofpact_to_nxast_type E c OFPACT_EXIT out =
     Some (out @ nx_action_header NXAST_EXIT 16 @ zeros 6)"
| "ofpact_to_nxast_type E c _ out = None"

definition ofpact_to_nxast :: "ext \<Rightarrow> ofpact \<Rightarrow> bytes \<Rightarrow> bytes option" where
  "ofpact_to_nxast E a out = ofpact_to_nxast_type E (compat a) (type a) out"

subsection \<open>Converting ofpacts to OpenFlow 1.0\<close>

definition ofpact_output_to_openflow10 :: "16 word \<Rightarrow> 16 word \<Rightarrow> bytes \<Rightarrow> bytes" where
  "ofpact_output_to_openflow10 port max_len out =
    out @ htons OFPAT10_OUTPUT @ htons 8 @ htons port @ htons max_len"

definition ofpact_enqueue_to_openflow10 :: "16 word \<Rightarrow> 32 word \<Rightarrow> bytes \<Rightarrow> bytes" where
  "ofpact_enqueue_to_openflow10 port queue out =
    out @ htons OFPAT10_ENQUEUE @ htons 16 @ htons port @ zeros 6 @ htonl queue"

fun ofpact_to_openflow10_type :: "ext \<Rightarrow> ofpact \<Rightarrow> ofpact_type \<Rightarrow> bytes \<Rightarrow> bytes option" where
  "ofpact_to_openflow10_type E a OFPACT_END out = None"
| "ofpact_to_openflow10_type E a (OFPACT_OUTPUT port max_len) out =
     Some (ofpact_output_to_openflow10 port max_len out)"
| "ofpact_to_openflow10_type E a (OFPACT_ENQUEUE port queue) out =
     Some (ofpact_enqueue_to_openflow10 port queue out)"
| "ofpact_to_openflow10_type E a (OFPACT_SET_VLAN_VID vlan_vid) out =
     Some (out @ htons OFPAT10_SET_VLAN_VID @ htons 8 @ htons vlan_vid @ zeros 2)"
| "ofpact_to_openflow10_type E a (OFPACT_SET_VLAN_PCP vlan_pcp) out =
     Some (out @ htons OFPAT10_SET_VLAN_PCP @ htons 8 @ [vlan_pcp] @ zeros 3)"
| "ofpact_to_openflow10_type E a OFPACT_STRIP_VLAN out =
     Some (out @ htons OFPAT10_STRIP_VLAN @ htons 8 @ zeros 4)"
| "ofpact_to_openflow10_type E a (OFPACT_SET_ETH_SRC mac) out =
     Some (out @ htons OFPAT10_SET_DL_SRC @ htons 16 @ take ETH_ADDR_LEN mac @ zeros 6)"
| "ofpact_to_openflow10_type E a (OFPACT_SET_ETH_DST mac) out =
     Some (out @ htons OFPAT10_SET_DL_DST @ htons 16 @ take ETH_ADDR_LEN mac @ zeros 6)"
| "ofpact_to_openflow10_type E a (OFPACT_SET_IPV4_SRC ipv4) out =
     Some (out @ htons OFPAT10_SET_NW_SRC @ htons 8 @ htonl ipv4)"
| "ofpact_to_openflow10_type E a (OFPACT_SET_IPV4_DST ipv4) out =
     Some (out @ htons OFPAT10_SET_NW_DST @ htons 8 @ htonl ipv4)"
| "ofpact_to_openflow10_type E a (OFPACT_SET_IPV4_DSCP dscp) out =
     Some (out @ htons OFPAT10_SET_NW_TOS @ htons 8 @ [dscp] @ zeros 3)"
| "ofpact_to_openflow10_type E a (OFPACT_SET_L4_SRC_PORT port) out =
     Some (out @ htons OFPAT10_SET_TP_SRC @ htons 8 @ htons port @ zeros 2)"
| "ofpact_to_openflow10_type E a (OFPACT_SET_L4_DST_PORT port) out =
     Some (out @ htons OFPAT10_SET_TP_DST @ htons 8 @ htons port @ zeros 2)"
| "ofpact_to_openflow10_type E a _ out = ofpact_to_nxast E a out"

definition ofpact_to_openflow10 :: "ext \<Rightarrow> ofpact \<Rightarrow> bytes \<Rightarrow> bytes option" where
  "ofpact_to_openflow10 E a out = ofpact_to_openflow10_type E a (type a) out"

text \<open>
  \<^verbatim>\<open>OFPACT_FOR_EACH\<close> walks the entries up to the first \<^verbatim>\<open>OFPACT_END\<close>.  A list that
  holds no such entry makes the C loop run past its buffer; the model yields \<open>None\<close>
  there.
\<close>

fun ofpacts_to_openflow10 :: "ext \<Rightarrow> ofpact list \<Rightarrow> bytes \<Rightarrow> bytes option" where
  "ofpacts_to_openflow10 E [] openflow = None"
| "ofpacts_to_openflow10 E (a # ofpacts) openflow =
     (if type a = OFPACT_END then Some openflow
      else
        (case ofpact_to_openflow10 E a openflow of
           None \<Rightarrow> None
         | Some openflow' \<Rightarrow> ofpacts_to_openflow10 E ofpacts openflow'))"

subsection \<open>Output-port query\<close>

fun ofpact_outputs_to_port :: "ofpact_type \<Rightarrow> 16 word \<Rightarrow> bool" where
  "ofpact_outputs_to_port (OFPACT_OUTPUT oport max_len) port = (oport = port)"
| "ofpact_outputs_to_port (OFPACT_ENQUEUE eport queue) port = (eport = port)"
| "ofpact_outputs_to_port (OFPACT_CONTROLLER max_len controller_id reason) port =
     (port = OFPP_CONTROLLER)"
| "ofpact_outputs_to_port _ port = False"

fun ofpacts_output_to_port :: "ofpact list \<Rightarrow> 16 word \<Rightarrow> bool option" where
  "ofpacts_output_to_port [] port = None"
| "ofpacts_output_to_port (a # ofpacts) port =
     (if type a = OFPACT_END then Some False
      else if ofpact_outputs_to_port (type a) port then Some True
      else ofpacts_output_to_port ofpacts port)"

subsection \<open>Notions used in the statements\<close>

text \<open>
  The \<^verbatim>\<open>OFPACT_END\<close> entry that \<^verbatim>\<open>ofpact_put_END\<close> appends, and an entry of any type as
  \<^verbatim>\<open>ofpact_put\<close> leaves it.
\<close>

abbreviation (input) put_entry :: "ofpact_type \<Rightarrow> ofpact" where
  "put_entry t \<equiv> \<lparr>compat = OFPUTIL_ACTION_INVALID, type = t\<rparr>"

abbreviation (input) END_entry :: ofpact where
  "END_entry \<equiv> put_entry OFPACT_END"

text \<open>
  \<open>is_action_boundary a left k\<close>: the \<^verbatim>\<open>ACTION_FOR_EACH\<close> iteration over the window
  \<open>a\<close> of \<open>left\<close> units stands between two actions after exactly \<open>k\<close> bytes (0 is the
  boundary before the first action).
\<close>

function is_action_boundary :: "bytes \<Rightarrow> nat \<Rightarrow> nat \<Rightarrow> bool" where
  "is_action_boundary a left k =
    (if k = 0 then True
     else if left > 0 \<and> action_is_valid a left \<and> unat (ntohs (drop 2 a)) \<le> k
     then is_action_boundary (drop (unat (ntohs (drop 2 a))) a)
            (left - unat (ntohs (drop 2 a)) div sizeof_ofp_action)
            (k - unat (ntohs (drop 2 a)))
     else False)"
  by pat_completeness auto
termination
  by (relation "measure (\<lambda>(a, left, k). left)")
     (auto simp: action_is_valid_def Let_def)

text \<open>
  \<open>unit_ok act\<close>: \<open>act\<close> is one action unit, as long as its length field says, a
  multiple of 8 and at least 8 bytes.  \<open>nx_unit act subtype\<close>: moreover a vendor action
  of the NX vendor with the given subtype.
\<close>

definition unit_ok :: "bytes \<Rightarrow> bool" where
  "unit_ok act =
    (unat (ntohs (drop 2 act)) = length act \<and> length act mod 8 = 0 \<and> 8 \<le> length act)"

definition nx_unit :: "bytes \<Rightarrow> 16 word \<Rightarrow> bool" where
  "nx_unit act subtype =
    (unit_ok act \<and> ntohs act = OFPAT10_VENDOR \<and> ntohl (drop 4 act) = NX_VENDOR_ID
       \<and> ntohs (drop 8 act) = subtype)"

text \<open>The zero bytes that \<^verbatim>\<open>ofpact_note_to_nxast\<close> appends after the data of a note.\<close>

definition note_pad :: "bytes \<Rightarrow> nat" where
  "note_pad data =
    (let remainder = (offsetof_nx_action_note_note + length data) mod OFP_ACTION_ALIGN
     in if remainder \<noteq> 0 then OFP_ACTION_ALIGN - remainder else 0)"

text \<open>
  \<open>expressible10 E t\<close>: an entry of type \<open>t\<close> is one that the 1.0 emitter writes and
  the 1.0 parser takes back.  For the types handled in this file these are the
  parser's own checks: the port checks, the field masks, six bytes of MAC address, a
  note whose action fits the 16-bit length field.  For an \<^verbatim>\<open>output_reg\<close> entry and
  for the entries of the sub-codecs it is the assumption that the collaborator
  concerned takes back what it wrote: the field registry maps the field's header back
  to the field, decodes the offset and width it encoded and accepts the source; the
  sub-codec writes one well-framed NX action of its subtype and size and parses it
  into the same entry.  \<^verbatim>\<open>OFPACT_END\<close> is no entry to write.
\<close>

fun expressible10 :: "ext \<Rightarrow> ofpact_type \<Rightarrow> bool" where
  "expressible10 E (OFPACT_OUTPUT port max_len) =
     (ofputil_check_output_port E port OFPP_MAX = None)"
| "expressible10 E (OFPACT_ENQUEUE port queue) =
     (port < OFPP_MAX \<or> port = OFPP_IN_PORT \<or> port = OFPP_LOCAL)"
| "expressible10 E (OFPACT_SET_VLAN_VID vlan_vid) = (vlan_vid AND NOT 0xfff = 0)"
| "expressible10 E (OFPACT_SET_VLAN_PCP vlan_pcp) = (vlan_pcp AND NOT 7 = 0)"
| "expressible10 E OFPACT_STRIP_VLAN = True"
| "expressible10 E (OFPACT_SET_ETH_SRC mac) = (length mac = ETH_ADDR_LEN)"
| "expressible10 E (OFPACT_SET_ETH_DST mac) = (length mac = ETH_ADDR_LEN)"
| "expressible10 E (OFPACT_SET_IPV4_SRC ipv4) = True"
| "expressible10 E (OFPACT_SET_IPV4_DST ipv4) = True"
| "expressible10 E (OFPACT_SET_IPV4_DSCP dscp) = (dscp AND NOT IP_DSCP_MASK = 0)"
| "expressible10 E (OFPACT_SET_L4_SRC_PORT port) = True"
| "expressible10 E (OFPACT_SET_L4_DST_PORT port) = True"
| "expressible10 E (OFPACT_CONTROLLER max_len controller_id reason) = True"
| "expressible10 E OFPACT_DEC_TTL = True"
| "expressible10 E (OFPACT_SET_TUNNEL tun_id) = True"
| "expressible10 E (OFPACT_SET_QUEUE queue_id) = True"
| "expressible10 E OFPACT_POP_QUEUE = True"
| "expressible10 E (OFPACT_FIN_TIMEOUT idle hard) = True"
| "expressible10 E (OFPACT_RESUBMIT in_port table_id) = True"
| "expressible10 E (OFPACT_NOTE data) =
     (offsetof_nx_action_note_note + length data + note_pad data < 65536)"
| "expressible10 E OFPACT_EXIT = True"
| "expressible10 E (OFPACT_OUTPUT_REG src max_len) =
     (case field src of
        None \<Rightarrow> False
      | Some f \<Rightarrow>
          mf_from_nxm_header E (mf_nxm_header E f) = Some f
          \<and> nxm_decode_ofs E (nxm_encode_ofs_nbits E (ofs src) (n_bits src)) = ofs src
          \<and> nxm_decode_n_bits E (nxm_encode_ofs_nbits E (ofs src) (n_bits src)) = n_bits src
          \<and> mf_check_src E src = None)"
| "expressible10 E (OFPACT_BUNDLE b) =
     ((nx_unit (bundle_to_openflow E b) NXAST_BUNDLE
         \<or> nx_unit (bundle_to_openflow E b) NXAST_BUNDLE_LOAD)
      \<and> 32 \<le> length (bundle_to_openflow E b)
      \<and> bundle_from_openflow E (bundle_to_openflow E b)
          = (None, [\<lparr>compat = OFPUTIL_ACTION_INVALID, type = OFPACT_BUNDLE b\<rparr>]))"
| "expressible10 E (OFPACT_REG_MOVE m) =
     (nx_unit (nxm_reg_move_to_openflow E m) NXAST_REG_MOVE
      \<and> length (nxm_reg_move_to_openflow E m) = 24
      \<and> nxm_reg_move_from_openflow E (nxm_reg_move_to_openflow E m)
          = (None, [\<lparr>compat = OFPUTIL_ACTION_INVALID, type = OFPACT_REG_MOVE m\<rparr>]))"
| "expressible10 E (OFPACT_REG_LOAD l) =
     (nx_unit (nxm_reg_load_to_openflow E l) NXAST_REG_LOAD
      \<and> length (nxm_reg_load_to_openflow E l) = 24
      \<and> nxm_reg_load_from_openflow E (nxm_reg_load_to_openflow E l)
          = (None, [\<lparr>compat = OFPUTIL_ACTION_INVALID, type = OFPACT_REG_LOAD l\<rparr>]))"
| "expressible10 E (OFPACT_LEARN l) =
     (nx_unit (learn_to_openflow E l) NXAST_LEARN
      \<and> 32 \<le> length (learn_to_openflow E l)
      \<and> learn_from_openflow E (learn_to_openflow E l)
          = (None, [\<lparr>compat = OFPUTIL_ACTION_INVALID, type = OFPACT_LEARN l\<rparr>]))"
| "expressible10 E (OFPACT_MULTIPATH m) =
     (nx_unit (multipath_to_openflow E m) NXAST_MULTIPATH
      \<and> length (multipath_to_openflow E m) = 32
      \<and> multipath_from_openflow E (multipath_to_openflow E m) = (None, m))"
| "expressible10 E (OFPACT_AUTOPATH p) =
     (nx_unit (autopath_to_openflow E p) NXAST_AUTOPATH
      \<and> length (autopath_to_openflow E p) = 24
      \<and> autopath_from_openflow E (autopath_to_openflow E p) = (None, p))"
| "expressible10 E OFPACT_END = False"

text \<open>
  \<open>reparsed10 a\<close>: the entry that comes back for \<open>a\<close>.  The type and payload are those
  of \<open>a\<close>, except that a note comes back with the padding that was written after it;
  \<open>compat\<close> is the NX opcode that was written for a tunnel or resubmit entry and
  \<^verbatim>\<open>OFPUTIL_ACTION_INVALID\<close> for every other entry.
\<close>

definition reparsed10 :: "ofpact \<Rightarrow> ofpact" where
  "reparsed10 a =
    (case type a of
       OFPACT_SET_TUNNEL tun_id \<Rightarrow>
         \<lparr>compat = (if tun_id \<le> UINT32_MAX \<and> compat a \<noteq> OFPUTIL_NXAST_SET_TUNNEL64
                    then OFPUTIL_NXAST_SET_TUNNEL else OFPUTIL_NXAST_SET_TUNNEL64),
          type = OFPACT_SET_TUNNEL tun_id\<rparr>
     | OFPACT_RESUBMIT in_port table_id \<Rightarrow>
         \<lparr>compat = (if table_id = 0xff \<and> compat a \<noteq> OFPUTIL_NXAST_RESUBMIT_TABLE
                    then OFPUTIL_NXAST_RESUBMIT else OFPUTIL_NXAST_RESUBMIT_TABLE),
          type = OFPACT_RESUBMIT in_port table_id\<rparr>
     | OFPACT_NOTE data \<Rightarrow>
         \<lparr>compat = OFPUTIL_ACTION_INVALID, type = OFPACT_NOTE (data @ zeros (note_pad data))\<rparr>
     | t \<Rightarrow> \<lparr>compat = OFPUTIL_ACTION_INVALID, type = t\<rparr>)"

text \<open>\<open>wire10 E a\<close>: the bytes that the 1.0 emitter writes for the entry \<open>a\<close>.\<close>

definition wire10 :: "ext \<Rightarrow> ofpact \<Rightarrow> bytes" where
  "wire10 E a = (case ofpact_to_openflow10 E a [] of Some act \<Rightarrow> act | None \<Rightarrow> [])"


subsection \<open>An instance of the collaborators\<close>

text \<open>
  Modelled from the spec: an instance of the collaborators, for running the codec on
  concrete inputs.  The output-port check accepts a port below \<open>max_ports\<close> and the
  reserved ports the spec lists (\<^verbatim>\<open>IN_PORT\<close>, \<^verbatim>\<open>TABLE\<close>, \<^verbatim>\<open>NORMAL\<close>, \<^verbatim>\<open>FLOOD\<close>,
  \<^verbatim>\<open>ALL\<close>, \<^verbatim>\<open>CONTROLLER\<close>, \<^verbatim>\<open>LOCAL\<close>); the 1.1 port mapping keeps a port below
  \<^verbatim>\<open>OFPP_MAX\<close> and maps the reserved 1.1 codes onto their 1.0 equivalents.  The spec
  leaves the field registry and the sub-codecs out of scope: this instance knows no
  field and its sub-codecs reject every action, so it serves for inputs that carry
  none of their actions.
\<close>

definition ext_spec :: ext where
  "ext_spec =
    \<lparr>ofputil_check_output_port =
       (\<lambda>port max_ports.
          if port < max_ports \<or> port \<in> {0xfff8, 0xfff9, 0xfffa, 0xfffb, 0xfffc, 0xfffd, 0xfffe}
          then None else Some OFPERR_OFPBAC_BAD_OUT_PORT),
     ofputil_port_from_ofp11 =
       (\<lambda>p. if p < 0xff00 then Inr (ucast p)
            else if p \<ge> 0xffffff00 then Inr (ucast (p - 0xffff0000))
            else Inl OFPERR_OFPBAC_BAD_OUT_PORT),
     mf_from_nxm_header = (\<lambda>h. None),
     mf_nxm_header = (\<lambda>f. 0),
     mf_check_src = (\<lambda>sf. Some (OFPERR_OTHER 0)),
     nxm_decode_ofs = (\<lambda>w. unat (drop_bit 6 w)),
     nxm_decode_n_bits = (\<lambda>w. unat (w AND 0x3f) + 1),
     nxm_encode_ofs_nbits = (\<lambda>ofs n_bits. push_bit 6 (of_nat ofs) OR of_nat (n_bits - 1)),
     nxm_reg_move_from_openflow = (\<lambda>a. (Some (OFPERR_OTHER 0), [])),
     nxm_reg_load_from_openflow = (\<lambda>a. (Some (OFPERR_OTHER 0), [])),
     bundle_from_openflow = (\<lambda>a. (Some (OFPERR_OTHER 0), [])),
     learn_from_openflow = (\<lambda>a. (Some (OFPERR_OTHER 0), [])),
     multipath_from_openflow = (\<lambda>a. (Some (OFPERR_OTHER 0), [])),
     autopath_from_openflow = (\<lambda>a. (Some (OFPERR_OTHER 0), [])),
     nxm_reg_move_to_openflow = (\<lambda>x. []),
     nxm_reg_load_to_openflow = (\<lambda>x. []),
     bundle_to_openflow = (\<lambda>x. []),
     learn_to_openflow = (\<lambda>x. []),
     multipath_to_openflow = (\<lambda>x. []),
     autopath_to_openflow = (\<lambda>x. [])\<rparr>"

section \<open>Properties\<close>

subsection \<open>Byte order\<close>

lemma length_htons [simp]: "length (htons w) = 2"
  by (simp add: htons_def)

lemma length_htonl [simp]: "length (htonl w) = 4"
  by (simp add: htonl_def)

lemma length_htonll [simp]: "length (htonll w) = 8"
  by (simp add: htonll_def)

lemma length_zeros [simp]: "length (zeros n) = n"
  by (simp add: zeros_def)

lemma ntohs_htons [simp]: "ntohs (htons w @ r) = w"
  unfolding ntohs_def htons_def
  by (simp add: bit_eq_iff bit_simps) (auto simp: bit_simps)

lemma halves32:
  "push_bit 16 (ucast (ucast (drop_bit 16 w) :: 16 word)) OR ucast (ucast w :: 16 word)
     = (w :: 32 word)"
  by (simp add: bit_eq_iff bit_simps) (auto simp: bit_simps)

lemma halves64:
  "push_bit 32 (ucast (ucast (drop_bit 32 w) :: 32 word)) OR ucast (ucast w :: 32 word)
     = (w :: 64 word)"
  by (simp add: bit_eq_iff bit_simps) (auto simp: bit_simps)

lemma ntohl_htonl [simp]: "ntohl (htonl w @ r) = w"
  unfolding ntohl_def htonl_def by (simp add: halves32)

lemma ntohll_htonll [simp]: "ntohll (htonll w @ r) = w"
  unfolding ntohll_def htonll_def by (simp add: halves64)

lemma ntohs_htons_end [simp]: "ntohs (htons w) = w"
  using ntohs_htons [of w "[]"] by simp

lemma ntohl_htonl_end [simp]: "ntohl (htonl w) = w"
  using ntohl_htonl [of w "[]"] by simp

lemma ntohll_htonll_end [simp]: "ntohll (htonll w) = w"
  using ntohll_htonll [of w "[]"] by simp

lemma zeros_simps:
  "zeros 0 = []" "zeros 1 = [0]" "zeros 2 = [0, 0]" "zeros 3 = [0, 0, 0]"
  "zeros 4 = [0, 0, 0, 0]" "zeros 5 = [0, 0, 0, 0, 0]" "zeros 6 = [0, 0, 0, 0, 0, 0]"
  "zeros 7 = [0, 0, 0, 0, 0, 0, 0]"
  by (simp_all add: zeros_def numeral_eq_Suc)

lemma length_nx_action_header [simp]: "length (nx_action_header st len) = 10"
  by (simp add: nx_action_header_def)

lemma ucast_le_uint32:
  "(t :: 64 word) \<le> UINT32_MAX \<Longrightarrow> (ucast (ucast t :: 32 word) :: 64 word) = t"
  by (simp add: word_le_nat_alt word_unat_eq_iff unsigned_ucast_eq unsigned_take_bit_eq
        take_bit_nat_eq_self_iff)

subsection \<open>Vendor actions\<close>

text \<open>
  C10.  A vendor action whose declared length is below the 16 bytes of
  \<^verbatim>\<open>struct nx_action_header\<close> (so 8, when it is a multiple of 8 that passed the
  iteration's check) is refused with \<^verbatim>\<open>OFPBAC_BAD_LEN\<close> whatever its vendor id is: the
  length test comes before the vendor test.  This holds for \<^verbatim>\<open>decode_nxast_action\<close>
  itself and for the 1.0 and 1.1 action parsers that dispatch to it.
\<close>

theorem decode_nxast_action_short:
  "unat (ntohs (drop 2 a)) < sizeof_nx_action_header \<Longrightarrow>
     decode_nxast_action a = Inl OFPERR_OFPBAC_BAD_LEN
   \<and> (ntohs a = OFPAT10_VENDOR \<longrightarrow>
        ofpact_from_openflow10 E a out = (Error OFPERR_OFPBAC_BAD_LEN, out))
   \<and> (ntohs a = OFPAT11_EXPERIMENTER \<longrightarrow>
        ofpact_from_openflow11 E a out = (Error OFPERR_OFPBAC_BAD_LEN, out))"
  by (simp add: decode_nxast_action_def ofpact_from_openflow10_def ofpact_from_openflow11_def
        decode_openflow10_action_def decode_openflow11_action_def)

theorem decode_nxast_action_short_witness:
  "unat (ntohs (drop 2 [0xff, 0xff, 0, 8, 0, 0, 0x12, 0x34])) < sizeof_nx_action_header
   \<and> ntohs [0xff, 0xff, 0, 8, 0, 0, 0x12, 0x34] = OFPAT10_VENDOR
   \<and> ntohl (drop 4 [0xff, 0xff, 0, 8, 0, 0, 0x12, 0x34]) \<noteq> NX_VENDOR_ID
   \<and> decode_nxast_action [0xff, 0xff, 0, 8, 0, 0, 0x12, 0x34] = Inl OFPERR_OFPBAC_BAD_LEN
   \<and> ofpact_from_openflow10 ext_spec [0xff, 0xff, 0, 8, 0, 0, 0x12, 0x34] []
       = (Error OFPERR_OFPBAC_BAD_LEN, [])
   \<and> ofpact_from_openflow11 ext_spec [0xff, 0xff, 0, 8, 0, 0, 0x12, 0x34] []
       = (Error OFPERR_OFPBAC_BAD_LEN, [])"
  using decode_nxast_action_short [of "[0xff, 0xff, 0, 8, 0, 0, 0x12, 0x34]" ext_spec "[]"]
  by (simp add: ntohs_def ntohl_def)

text \<open>
  C5 (amended).  For a vendor action whose declared length is at least the 16 bytes
  of \<^verbatim>\<open>struct nx_action_header\<close>: a vendor id at bytes 4..8 other than the NX vendor id
  gives \<^verbatim>\<open>OFPBAC_BAD_VENDOR\<close>; with the NX vendor id, a subtype at bytes 8..10 that has
  no row in the table gives \<^verbatim>\<open>OFPBAC_BAD_TYPE\<close>, and so do the two obsolete subtypes
  \<^verbatim>\<open>NXAST_SNAT__OBSOLETE\<close> and \<^verbatim>\<open>NXAST_DROP_SPOOFED_ARP__OBSOLETE\<close>.
\<close>

theorem decode_nxast_action_dispatch:
  assumes "unat (ntohs (drop 2 a)) \<ge> sizeof_nx_action_header"
  shows "(ntohl (drop 4 a) \<noteq> NX_VENDOR_ID \<longrightarrow>
            decode_nxast_action a = Inl OFPERR_OFPBAC_BAD_VENDOR)
       \<and> (ntohl (drop 4 a) = NX_VENDOR_ID \<and> ntohs (drop 8 a) \<notin> fst ` set nxast_actions \<longrightarrow>
            decode_nxast_action a = Inl OFPERR_OFPBAC_BAD_TYPE)
       \<and> (ntohl (drop 4 a) = NX_VENDOR_ID
            \<and> (ntohs (drop 8 a) = NXAST_SNAT__OBSOLETE
                 \<or> ntohs (drop 8 a) = NXAST_DROP_SPOOFED_ARP__OBSOLETE) \<longrightarrow>
            decode_nxast_action a = Inl OFPERR_OFPBAC_BAD_TYPE)"
proof -
  have obsolete: "map_of nxast_actions NXAST_SNAT__OBSOLETE = None"
    "map_of nxast_actions NXAST_DROP_SPOOFED_ARP__OBSOLETE = None"
    by (simp_all add: nxast_actions_def)
  have unknown: "map_of nxast_actions (ntohs (drop 8 a)) = None"
    if "ntohs (drop 8 a) \<notin> fst ` set nxast_actions"
    using that by (simp add: map_of_eq_None_iff)
  from assms obsolete unknown show ?thesis
    by (auto simp: decode_nxast_action_def Let_def)
qed

theorem decode_nxast_action_dispatch_witness:
  "decode_nxast_action [0xff, 0xff, 0, 16, 0, 0, 0x12, 0x34, 0, 2, 0, 0, 0, 0, 0, 7]
     = Inl OFPERR_OFPBAC_BAD_VENDOR
   \<and> decode_nxast_action [0xff, 0xff, 0, 16, 0, 0, 0x23, 0x20, 0, 21, 0, 0, 0, 0, 0, 0]
     = Inl OFPERR_OFPBAC_BAD_TYPE
   \<and> decode_nxast_action [0xff, 0xff, 0, 16, 0, 0, 0x23, 0x20, 0, 0, 0, 0, 0, 0, 0, 0]
     = Inl OFPERR_OFPBAC_BAD_TYPE
   \<and> decode_nxast_action [0xff, 0xff, 0, 16, 0, 0, 0x23, 0x20, 0, 3, 0, 0, 0, 0, 0, 0]
     = Inl OFPERR_OFPBAC_BAD_TYPE"
  using
    decode_nxast_action_dispatch [of "[0xff, 0xff, 0, 16, 0, 0, 0x12, 0x34, 0, 2, 0, 0, 0, 0, 0, 7]"]
    decode_nxast_action_dispatch [of "[0xff, 0xff, 0, 16, 0, 0, 0x23, 0x20, 0, 21, 0, 0, 0, 0, 0, 0]"]
    decode_nxast_action_dispatch [of "[0xff, 0xff, 0, 16, 0, 0, 0x23, 0x20, 0, 0, 0, 0, 0, 0, 0, 0]"]
    decode_nxast_action_dispatch [of "[0xff, 0xff, 0, 16, 0, 0, 0x23, 0x20, 0, 3, 0, 0, 0, 0, 0, 0]"]
  by (simp add: ntohs_def ntohl_def nxast_actions_def)

text \<open>
  The claim as stated fails at declared length 8: the unit below passes the
  iteration's length check, is a vendor action and carries a vendor id that is not
  NX, yet the decoder answers \<^verbatim>\<open>OFPBAC_BAD_LEN\<close>.
\<close>

theorem decode_nxast_action_dispatch_counterexample:
  "action_is_valid [0xff, 0xff, 0, 8, 0, 0, 0, 1] 1
   \<and> ntohs [0xff, 0xff, 0, 8, 0, 0, 0, 1] = OFPAT10_VENDOR
   \<and> ntohl (drop 4 [0xff, 0xff, 0, 8, 0, 0, 0, 1]) \<noteq> NX_VENDOR_ID
   \<and> decode_openflow10_action [0xff, 0xff, 0, 8, 0, 0, 0, 1] = Inl OFPERR_OFPBAC_BAD_LEN
   \<and> decode_openflow11_action [0xff, 0xff, 0, 8, 0, 0, 0, 1] = Inl OFPERR_OFPBAC_BAD_LEN
   \<and> decode_nxast_action [0xff, 0xff, 0, 8, 0, 0, 0, 1] \<noteq> Inl OFPERR_OFPBAC_BAD_VENDOR"
  by (simp add: action_is_valid_def decode_openflow10_action_def decode_openflow11_action_def
        decode_nxast_action_def ntohs_def ntohl_def)

subsection \<open>Choice of the Nicira opcode\<close>

text \<open>
  C6.  For a \<^verbatim>\<open>set_tunnel\<close> entry the Nicira emitter (reached directly or through the
  1.0 emitter) appends one NX vendor action.  Its subtype is the 32-bit
  \<^verbatim>\<open>NXAST_SET_TUNNEL\<close> exactly when \<open>tun_id \<le> 0xFFFFFFFF\<close> and the entry's compat hint
  is not \<^verbatim>\<open>NXAST_SET_TUNNEL64\<close>, and is \<^verbatim>\<open>NXAST_SET_TUNNEL64\<close> in every other case; the
  action decodes as that opcode and carries the tunnel id in a field of that width.
\<close>

theorem set_tunnel_opcode:
  "\<exists>act. ofpact_to_nxast E \<lparr>compat = c, type = OFPACT_SET_TUNNEL tun_id\<rparr> out = Some (out @ act)
     \<and> ofpact_to_openflow10 E \<lparr>compat = c, type = OFPACT_SET_TUNNEL tun_id\<rparr> out
         = Some (out @ act)
     \<and> ntohs act = OFPAT10_VENDOR
     \<and> ntohl (drop 4 act) = NX_VENDOR_ID
     \<and> ntohs (drop 8 act) =
         (if tun_id \<le> UINT32_MAX \<and> c \<noteq> OFPUTIL_NXAST_SET_TUNNEL64
          then NXAST_SET_TUNNEL else NXAST_SET_TUNNEL64)
     \<and> decode_nxast_action act =
         Inr (if tun_id \<le> UINT32_MAX \<and> c \<noteq> OFPUTIL_NXAST_SET_TUNNEL64
              then OFPUTIL_NXAST_SET_TUNNEL else OFPUTIL_NXAST_SET_TUNNEL64)
     \<and> (if tun_id \<le> UINT32_MAX \<and> c \<noteq> OFPUTIL_NXAST_SET_TUNNEL64
         then length act = 16 \<and> ucast (ntohl (drop 12 act)) = tun_id
         else length act = 24 \<and> ntohll (drop 16 act) = tun_id)"
  by (simp add: ofpact_to_nxast_def ofpact_to_openflow10_def ofpact_set_tunnel_to_nxast_def
        decode_nxast_action_def nx_action_header_def nxast_actions_def ucast_le_uint32)

theorem set_tunnel_opcode_witness:
  "ofpact_to_nxast ext_spec
       \<lparr>compat = OFPUTIL_ACTION_INVALID, type = OFPACT_SET_TUNNEL 0xffffffff\<rparr> []
     = Some [0xff, 0xff, 0, 16, 0, 0, 0x23, 0x20, 0, 2, 0, 0, 0xff, 0xff, 0xff, 0xff]
   \<and> ofpact_to_nxast ext_spec
       \<lparr>compat = OFPUTIL_ACTION_INVALID, type = OFPACT_SET_TUNNEL 0x100000000\<rparr> []
     = Some [0xff, 0xff, 0, 24, 0, 0, 0x23, 0x20, 0, 9,
             0, 0, 0, 0, 0, 0, 0, 0, 0, 1, 0, 0, 0, 0]
   \<and> ofpact_to_nxast ext_spec
       \<lparr>compat = OFPUTIL_NXAST_SET_TUNNEL64, type = OFPACT_SET_TUNNEL 1\<rparr> []
     = Some [0xff, 0xff, 0, 24, 0, 0, 0x23, 0x20, 0, 9,
             0, 0, 0, 0, 0, 0, 0, 0, 0, 0, 0, 0, 0, 1]"
  using set_tunnel_opcode [of ext_spec OFPUTIL_ACTION_INVALID "0xffffffff" "[]"]
        set_tunnel_opcode [of ext_spec OFPUTIL_ACTION_INVALID "0x100000000" "[]"]
        set_tunnel_opcode [of ext_spec OFPUTIL_NXAST_SET_TUNNEL64 1 "[]"]
  by (simp add: ofpact_to_nxast_def ofpact_set_tunnel_to_nxast_def nx_action_header_def
        htons_def htonl_def htonll_def zeros_simps)

text \<open>
  C7.  For a \<^verbatim>\<open>resubmit\<close> entry the Nicira emitter (reached directly or through the
  1.0 emitter) appends one 16-byte NX vendor action with the entry's \<open>in_port\<close>.  Its
  subtype is \<^verbatim>\<open>NXAST_RESUBMIT\<close> exactly when \<open>table_id = 0xFF\<close> and the entry's compat
  hint is not \<^verbatim>\<open>NXAST_RESUBMIT_TABLE\<close>; in every other case it is
  \<^verbatim>\<open>NXAST_RESUBMIT_TABLE\<close> and the table byte carries \<open>table_id\<close>.
\<close>

theorem resubmit_opcode:
  "\<exists>act. ofpact_to_nxast E \<lparr>compat = c, type = OFPACT_RESUBMIT in_port table_id\<rparr> out
         = Some (out @ act)
     \<and> ofpact_to_openflow10 E \<lparr>compat = c, type = OFPACT_RESUBMIT in_port table_id\<rparr> out
         = Some (out @ act)
     \<and> ntohs act = OFPAT10_VENDOR
     \<and> ntohl (drop 4 act) = NX_VENDOR_ID
     \<and> length act = 16
     \<and> ntohs (drop 10 act) = in_port
     \<and> ntohs (drop 8 act) =
         (if table_id = 0xff \<and> c \<noteq> OFPUTIL_NXAST_RESUBMIT_TABLE
          then NXAST_RESUBMIT else NXAST_RESUBMIT_TABLE)
     \<and> decode_nxast_action act =
         Inr (if table_id = 0xff \<and> c \<noteq> OFPUTIL_NXAST_RESUBMIT_TABLE
              then OFPUTIL_NXAST_RESUBMIT else OFPUTIL_NXAST_RESUBMIT_TABLE)
     \<and> act ! 12 =
         (if table_id = 0xff \<and> c \<noteq> OFPUTIL_NXAST_RESUBMIT_TABLE then 0 else table_id)"
  by (simp add: ofpact_to_nxast_def ofpact_to_openflow10_def ofpact_resubmit_to_nxast_def
        decode_nxast_action_def nx_action_header_def nxast_actions_def nth_append)

theorem resubmit_opcode_witness:
  "ofpact_to_nxast ext_spec
       \<lparr>compat = OFPUTIL_NXAST_RESUBMIT_TABLE, type = OFPACT_RESUBMIT 3 0xff\<rparr> []
     = Some [0xff, 0xff, 0, 16, 0, 0, 0x23, 0x20, 0, 14, 0, 3, 0xff, 0, 0, 0]
   \<and> ofpact_to_nxast ext_spec
       \<lparr>compat = OFPUTIL_ACTION_INVALID, type = OFPACT_RESUBMIT 3 0xff\<rparr> []
     = Some [0xff, 0xff, 0, 16, 0, 0, 0x23, 0x20, 0, 1, 0, 3, 0, 0, 0, 0]
   \<and> ofpact_to_nxast ext_spec
       \<lparr>compat = OFPUTIL_ACTION_INVALID, type = OFPACT_RESUBMIT 3 5\<rparr> []
     = Some [0xff, 0xff, 0, 16, 0, 0, 0x23, 0x20, 0, 14, 0, 3, 5, 0, 0, 0]"
  using resubmit_opcode [of ext_spec OFPUTIL_NXAST_RESUBMIT_TABLE 3 "0xff" "[]"]
        resubmit_opcode [of ext_spec OFPUTIL_ACTION_INVALID 3 "0xff" "[]"]
        resubmit_opcode [of ext_spec OFPUTIL_ACTION_INVALID 3 5 "[]"]
  by (simp add: ofpact_to_nxast_def ofpact_resubmit_to_nxast_def nx_action_header_def
        htons_def htonl_def zeros_simps)

subsection \<open>Field ranges\<close>

text \<open>
  C8.  An action unit whose declared length is the 8 bytes of its struct is refused
  with \<^verbatim>\<open>OFPBAC_BAD_ARGUMENT\<close>, and nothing is appended, when it is a
  \<^verbatim>\<open>SET_VLAN_VID\<close> with one of the top 4 bits of \<open>vlan_vid\<close> set, a \<^verbatim>\<open>SET_VLAN_PCP\<close>
  with a bit outside the low 3 set, or a \<^verbatim>\<open>SET_NW_TOS\<close> with a bit outside the DSCP
  mask 0xFC set; in the 1.0 action parser and in the 1.1 action parser alike.
\<close>

theorem field_range_rejection:
  assumes "unat (ntohs (drop 2 a)) = 8"
  shows "(ntohs a = OFPAT10_SET_VLAN_VID \<and> ntohs (drop 4 a) AND 0xf000 \<noteq> 0 \<longrightarrow>
            ofpact_from_openflow10 E a out = (Error OFPERR_OFPBAC_BAD_ARGUMENT, out))
       \<and> (ntohs a = OFPAT10_SET_VLAN_PCP \<and> (a ! 4) AND 0xf8 \<noteq> 0 \<longrightarrow>
            ofpact_from_openflow10 E a out = (Error OFPERR_OFPBAC_BAD_ARGUMENT, out))
       \<and> (ntohs a = OFPAT10_SET_NW_TOS \<and> (a ! 4) AND 0x03 \<noteq> 0 \<longrightarrow>
            ofpact_from_openflow10 E a out = (Error OFPERR_OFPBAC_BAD_ARGUMENT, out))
       \<and> (ntohs a = OFPAT11_SET_VLAN_VID \<and> ntohs (drop 4 a) AND 0xf000 \<noteq> 0 \<longrightarrow>
            ofpact_from_openflow11 E a out = (Error OFPERR_OFPBAC_BAD_ARGUMENT, out))
       \<and> (ntohs a = OFPAT11_SET_VLAN_PCP \<and> (a ! 4) AND 0xf8 \<noteq> 0 \<longrightarrow>
            ofpact_from_openflow11 E a out = (Error OFPERR_OFPBAC_BAD_ARGUMENT, out))
       \<and> (ntohs a = OFPAT11_SET_NW_TOS \<and> (a ! 4) AND 0x03 \<noteq> 0 \<longrightarrow>
            ofpact_from_openflow11 E a out = (Error OFPERR_OFPBAC_BAD_ARGUMENT, out))"
proof -
  have not_fff: "(- 4096 :: 16 word) = 0xf000" by simp
  have not_7: "(- 8 :: 8 word) = 0xf8" by simp
  have not_dscp: "(- 253 :: 8 word) = 0x03" by simp
  from assms show ?thesis
    by (simp add: ofpact_from_openflow10_def ofpact_from_openflow11_def
          decode_openflow10_action_def decode_openflow11_action_def
          ofpat10_actions_def ofpat11_actions_def not_fff not_7 not_dscp)
qed

theorem field_range_rejection_witness:
  "ofpact_from_openflow10 ext_spec [0, 1, 0, 8, 0x10, 0, 0, 0] []
      = (Error OFPERR_OFPBAC_BAD_ARGUMENT, [])
   \<and> ofpact_from_openflow10 ext_spec [0, 2, 0, 8, 8, 0, 0, 0] []
      = (Error OFPERR_OFPBAC_BAD_ARGUMENT, [])
   \<and> ofpact_from_openflow10 ext_spec [0, 8, 0, 8, 0x41, 0, 0, 0] []
      = (Error OFPERR_OFPBAC_BAD_ARGUMENT, [])
   \<and> ofpact_from_openflow11 ext_spec [0, 1, 0, 8, 0x10, 0, 0, 0] []
      = (Error OFPERR_OFPBAC_BAD_ARGUMENT, [])
   \<and> ofpact_from_openflow11 ext_spec [0, 2, 0, 8, 8, 0, 0, 0] []
      = (Error OFPERR_OFPBAC_BAD_ARGUMENT, [])
   \<and> ofpact_from_openflow11 ext_spec [0, 7, 0, 8, 1, 0, 0, 0] []
      = (Error OFPERR_OFPBAC_BAD_ARGUMENT, [])"
  using field_range_rejection [of "[0, 1, 0, 8, 0x10, 0, 0, 0]" ext_spec "[]"]
        field_range_rejection [of "[0, 2, 0, 8, 8, 0, 0, 0]" ext_spec "[]"]
        field_range_rejection [of "[0, 8, 0, 8, 0x41, 0, 0, 0]" ext_spec "[]"]
        field_range_rejection [of "[0, 7, 0, 8, 1, 0, 0, 0]" ext_spec "[]"]
  by (simp add: ntohs_def)

subsection \<open>Output-port query\<close>

text \<open>
  C9.  For a list whose entries \<open>pre\<close> before the first \<^verbatim>\<open>OFPACT_END\<close> entry \<open>e\<close> hold
  no \<^verbatim>\<open>OFPACT_END\<close>, \<^verbatim>\<open>ofpacts_output_to_port\<close> returns, and returns true exactly when
  some entry of \<open>pre\<close> is an output to \<open>port\<close>, an enqueue to \<open>port\<close>, or a controller
  entry while \<open>port\<close> is \<^verbatim>\<open>OFPP_CONTROLLER\<close>.  Entries of other types, and whatever
  follows the \<^verbatim>\<open>OFPACT_END\<close>, never make it true.
\<close>

theorem ofpacts_output_to_port_iff:
  assumes "\<forall>a \<in> set pre. type a \<noteq> OFPACT_END" and "type e = OFPACT_END"
  shows "ofpacts_output_to_port (pre @ e # rest) port =
           Some (\<exists>a \<in> set pre.
                   (\<exists>max_len. type a = OFPACT_OUTPUT port max_len)
                 \<or> (\<exists>queue. type a = OFPACT_ENQUEUE port queue)
                 \<or> (\<exists>max_len controller_id reason.
                       type a = OFPACT_CONTROLLER max_len controller_id reason
                       \<and> port = OFPP_CONTROLLER))"
  using assms
proof (induction pre)
  case Nil
  then show ?case by simp
next
  case (Cons a pre)
  then show ?case
    by (cases "type a") auto
qed

theorem ofpacts_output_to_port_iff_witness:
  "ofpacts_output_to_port
     [\<lparr>compat = OFPUTIL_ACTION_INVALID, type = OFPACT_SET_VLAN_VID 5\<rparr>,
      \<lparr>compat = OFPUTIL_ACTION_INVALID, type = OFPACT_ENQUEUE 3 1\<rparr>,
      \<lparr>compat = OFPUTIL_ACTION_INVALID, type = OFPACT_END\<rparr>,
      \<lparr>compat = OFPUTIL_ACTION_INVALID, type = OFPACT_OUTPUT 7 0\<rparr>] 3 = Some True
   \<and> ofpacts_output_to_port
     [\<lparr>compat = OFPUTIL_ACTION_INVALID, type = OFPACT_SET_VLAN_VID 5\<rparr>,
      \<lparr>compat = OFPUTIL_ACTION_INVALID, type = OFPACT_ENQUEUE 3 1\<rparr>,
      \<lparr>compat = OFPUTIL_ACTION_INVALID, type = OFPACT_END\<rparr>,
      \<lparr>compat = OFPUTIL_ACTION_INVALID, type = OFPACT_OUTPUT 7 0\<rparr>] 7 = Some False"
  using ofpacts_output_to_port_iff
          [of "[\<lparr>compat = OFPUTIL_ACTION_INVALID, type = OFPACT_SET_VLAN_VID 5\<rparr>,
                \<lparr>compat = OFPUTIL_ACTION_INVALID, type = OFPACT_ENQUEUE 3 1\<rparr>]"
              "\<lparr>compat = OFPUTIL_ACTION_INVALID, type = OFPACT_END\<rparr>"
              "[\<lparr>compat = OFPUTIL_ACTION_INVALID, type = OFPACT_OUTPUT 7 0\<rparr>]" 3]
        ofpacts_output_to_port_iff
          [of "[\<lparr>compat = OFPUTIL_ACTION_INVALID, type = OFPACT_SET_VLAN_VID 5\<rparr>,
                \<lparr>compat = OFPUTIL_ACTION_INVALID, type = OFPACT_ENQUEUE 3 1\<rparr>]"
              "\<lparr>compat = OFPUTIL_ACTION_INVALID, type = OFPACT_END\<rparr>"
              "[\<lparr>compat = OFPUTIL_ACTION_INVALID, type = OFPACT_OUTPUT 7 0\<rparr>]" 7]
  by simp

subsection \<open>The parsers return\<close>

declare ofpacts_from_openflow.simps [simp del]
declare decode_openflow11_instructions_loop.simps [simp del]

lemma status_of_returns [simp]: "status_of x \<noteq> NOT_REACHED"
  by (cases x) simp_all

text \<open>
  A code that \<^verbatim>\<open>decode_nxast_action\<close> yields is one that \<^verbatim>\<open>ofpact_from_nxast\<close>
  handles, and both dialects pass it on.
\<close>

lemma ofpact_from_nxast_returns:
  "decode_nxast_action a = Inr code \<Longrightarrow>
     fst (ofpact_from_nxast E a code out) \<noteq> NOT_REACHED
   \<and> ofpact_from_openflow10_code E a code out = ofpact_from_nxast E a code out
   \<and> ofpact_from_openflow11_code E a code out = ofpact_from_nxast E a code out"
  by (auto simp: decode_nxast_action_def Let_def nxast_actions_def
        output_reg_from_openflow_def resubmit_table_from_openflow_def
        split: if_splits prod.splits option.splits)

lemma ofpact_from_openflow10_returns: "fst (ofpact_from_openflow10 E a out) \<noteq> NOT_REACHED"
proof (cases "decode_openflow10_action a")
  case (Inl e)
  then show ?thesis by (simp add: ofpact_from_openflow10_def)
next
  case (Inr code)
  show ?thesis
  proof (cases "ntohs a = OFPAT10_VENDOR")
    case True
    with Inr have "decode_nxast_action a = Inr code"
      by (simp add: decode_openflow10_action_def)
    from ofpact_from_nxast_returns [OF this, of E out] Inr show ?thesis
      by (simp add: ofpact_from_openflow10_def)
  next
    case False
    with Inr show ?thesis
      by (auto simp: ofpact_from_openflow10_def decode_openflow10_action_def ofpat10_actions_def
            output_from_openflow10_def enqueue_from_openflow10_def Let_def
            split: if_splits option.splits)
  qed
qed

lemma ofpact_from_openflow11_returns: "fst (ofpact_from_openflow11 E a out) \<noteq> NOT_REACHED"
proof (cases "decode_openflow11_action a")
  case (Inl e)
  then show ?thesis by (simp add: ofpact_from_openflow11_def)
next
  case (Inr code)
  show ?thesis
  proof (cases "ntohs a = OFPAT11_EXPERIMENTER")
    case True
    with Inr have "decode_nxast_action a = Inr code"
      by (simp add: decode_openflow11_action_def)
    from ofpact_from_nxast_returns [OF this, of E out] Inr show ?thesis
      by (simp add: ofpact_from_openflow11_def)
  next
    case False
    with Inr show ?thesis
      by (auto simp: ofpact_from_openflow11_def decode_openflow11_action_def ofpat11_actions_def
            output_from_openflow11_def Let_def
            split: if_splits option.splits sum.splits)
  qed
qed

lemma ofpacts_from_openflow_returns:
  assumes "\<And>a out. fst (f a out) \<noteq> NOT_REACHED"
  shows "fst (ofpacts_from_openflow a left out f) \<noteq> NOT_REACHED"
  using assms
proof (induction a left out f rule: ofpacts_from_openflow.induct)
  case (1 a left out f)
  note f = \<open>\<And>a out. fst (f a out) \<noteq> NOT_REACHED\<close>
  show ?case
  proof (cases "left > 0 \<and> action_is_valid a left")
    case False
    then show ?thesis by (subst ofpacts_from_openflow.simps) auto
  next
    case True
    obtain s out' where r: "f (take (unat (ntohs (drop 2 a))) a) out = (s, out')"
      by (cases "f (take (unat (ntohs (drop 2 a))) a) out")
    show ?thesis
    proof (cases s)
      case OK
      with "1.IH" [OF True refl _ refl f] r True show ?thesis
        by (subst ofpacts_from_openflow.simps) (simp add: Let_def)
    next
      case (Error e)
      with r True show ?thesis
        by (subst ofpacts_from_openflow.simps) (simp add: Let_def)
    next
      case NOT_REACHED
      with f [of "take (unat (ntohs (drop 2 a))) a" out] r show ?thesis by simp
    qed
  qed
qed

lemma ofpacts_from_openflow10_returns:
  "fst (ofpacts_from_openflow10 E a n out) \<noteq> NOT_REACHED"
  unfolding ofpacts_from_openflow10_def
  by (rule ofpacts_from_openflow_returns) (rule ofpact_from_openflow10_returns)

lemma ofpacts_from_openflow11_returns:
  "fst (ofpacts_from_openflow11 E a n out) \<noteq> NOT_REACHED"
  unfolding ofpacts_from_openflow11_def
  by (rule ofpacts_from_openflow_returns) (rule ofpact_from_openflow11_returns)

subsection \<open>The return value of the 1.0 entry point\<close>

text \<open>
  C2.  \<^verbatim>\<open>ofpacts_pull_openflow10\<close> returns 0 exactly when \<open>actions_len\<close> is a multiple
  of 8 and does not exceed the buffer, and \<^verbatim>\<open>OFPBRC_BAD_LEN\<close> otherwise: no error of
  an action reaches the caller.  When the length passes both checks and the action
  parser fails, the call still returns 0, with the bytes pulled and the list cleared.
\<close>

theorem ofpacts_pull_openflow10_returns_0:
  "fst (ofpacts_pull_openflow10 E openflow actions_len) =
     (if actions_len mod OFP_ACTION_ALIGN = 0 \<and> actions_len \<le> length openflow
      then OK else Error OFPERR_OFPBRC_BAD_LEN)
   \<and> (actions_len mod OFP_ACTION_ALIGN = 0 \<and> actions_len \<le> length openflow
        \<and> fst (ofpacts_from_openflow10 E (take actions_len openflow)
                 (actions_len div OFP_ACTION_ALIGN) []) \<noteq> OK
      \<longrightarrow> ofpacts_pull_openflow10 E openflow actions_len = (OK, drop actions_len openflow, []))"
proof -
  obtain s out where r:
    "ofpacts_from_openflow10 E (take actions_len openflow) (actions_len div OFP_ACTION_ALIGN) []
       = (s, out)"
    by (cases "ofpacts_from_openflow10 E (take actions_len openflow)
                 (actions_len div OFP_ACTION_ALIGN) []")
  have "s \<noteq> NOT_REACHED"
    using ofpacts_from_openflow10_returns
            [of E "take actions_len openflow" "actions_len div OFP_ACTION_ALIGN" "[]"] r
    by simp
  with r show ?thesis
    by (cases s) (simp_all add: ofpacts_pull_openflow10_def ofpbuf_try_pull_def)
qed

theorem ofpacts_pull_openflow10_returns_0_witness:
  "ofpacts_from_openflow10 ext_spec [0, 1, 0, 8, 0x10, 0, 0, 0] 1 []
     = (Error OFPERR_OFPBAC_BAD_ARGUMENT, [])
   \<and> ofpacts_pull_openflow10 ext_spec [0, 1, 0, 8, 0x10, 0, 0, 0, 0xaa] 8 = (OK, [0xaa], [])"
  using ofpacts_pull_openflow10_returns_0 [of ext_spec "[0, 1, 0, 8, 0x10, 0, 0, 0, 0xaa]" 8]
  by (simp add: ofpacts_from_openflow10_def ofpacts_from_openflow.simps action_is_valid_def
        ofpact_from_openflow10_def decode_openflow10_action_def ofpat10_actions_def ntohs_def)

subsection \<open>Evaluation on concrete inputs\<close>

lemmas eval_defs =
  ntohs_def ntohl_def ntohll_def htons_def htonl_def htonll_def zeros_simps
  action_is_valid_def instruction_is_valid_def ofpbuf_try_pull_def

lemma ext_spec_simps:
  "ofputil_check_output_port ext_spec port max_ports =
     (if port < max_ports \<or> port \<in> {0xfff8, 0xfff9, 0xfffa, 0xfffb, 0xfffc, 0xfffd, 0xfffe}
      then None else Some OFPERR_OFPBAC_BAD_OUT_PORT)"
  "ofputil_port_from_ofp11 ext_spec p =
     (if p < 0xff00 then Inr (ucast p)
      else if p \<ge> 0xffffff00 then Inr (ucast (p - 0xffff0000))
      else Inl OFPERR_OFPBAC_BAD_OUT_PORT)"
  by (simp_all add: ext_spec_def)

lemmas parse_eval =
  ofpacts_from_openflow.simps decode_nxast_action_def nxast_actions_def
  note_from_openflow_def ofpact_put_def ofpact_put_compat_def ext_spec_simps Let_def

lemmas parse10_eval =
  ofpacts_pull_openflow10_def ofpacts_from_openflow10_def
  ofpact_from_openflow10_def decode_openflow10_action_def
  ofpat10_actions_def output_from_openflow10_def enqueue_from_openflow10_def

lemmas parse11_eval =
  ofpacts_pull_openflow11_instructions_def decode_openflow11_instructions_def
  decode_openflow11_instructions_loop.simps decode_openflow11_instruction_def
  OVS_INSTRUCTIONS_def string_literal_as_condition_def get_actions_from_instruction_def
  ofpacts_from_openflow11_def ofpact_from_openflow11_def
  decode_openflow11_action_def ofpat11_actions_def output_from_openflow11_def

subsection \<open>Unsupported instructions\<close>

text \<open>
  C4 (amended).  Let the instruction framer accept the sequence (the length is a
  multiple of 8 within the buffer and \<^verbatim>\<open>decode_openflow11_instructions\<close> yields the
  table \<open>insts\<close>) and let one of \<^verbatim>\<open>GOTO_TABLE\<close>, \<^verbatim>\<open>WRITE_METADATA\<close>,
  \<^verbatim>\<open>WRITE_ACTIONS\<close>, \<^verbatim>\<open>CLEAR_ACTIONS\<close> be present.  Then
  \<^verbatim>\<open>ofpacts_pull_openflow11_instructions\<close> fails with the bytes pulled and the list
  cleared.  The error is \<^verbatim>\<open>OFPBIC_UNSUP_INST\<close> when no \<^verbatim>\<open>APPLY_ACTIONS\<close> instruction is
  present, and also when one is present and its actions parse; when its actions do
  not parse, the error is the one of the action parser.
\<close>

theorem unsupported_instructions:
  assumes al: "instructions_len mod OFP11_INSTRUCTION_ALIGN = 0"
    and len: "instructions_len \<le> length openflow"
    and framed: "decode_openflow11_instructions (take instructions_len openflow)
                   (instructions_len div OFP11_INSTRUCTION_ALIGN) = Inr insts"
    and present: "insts OVSINST_OFPIT11_GOTO_TABLE \<noteq> None
                \<or> insts OVSINST_OFPIT11_WRITE_METADATA \<noteq> None
                \<or> insts OVSINST_OFPIT11_WRITE_ACTIONS \<noteq> None
                \<or> insts OVSINST_OFPIT11_CLEAR_ACTIONS \<noteq> None"
  shows "(insts OVSINST_OFPIT11_APPLY_ACTIONS = None \<longrightarrow>
            ofpacts_pull_openflow11_instructions E openflow instructions_len
              = (Error OFPERR_OFPBIC_UNSUP_INST, drop instructions_len openflow, []))
       \<and> (\<forall>inst. insts OVSINST_OFPIT11_APPLY_ACTIONS = Some inst \<longrightarrow>
            ofpacts_pull_openflow11_instructions E openflow instructions_len
              = (case fst (ofpacts_from_openflow11 E (fst (get_actions_from_instruction inst))
                             (snd (get_actions_from_instruction inst)) []) of
                   Error error \<Rightarrow> Error error
                 | _ \<Rightarrow> Error OFPERR_OFPBIC_UNSUP_INST,
                 drop instructions_len openflow, []))
       \<and> (\<exists>error. ofpacts_pull_openflow11_instructions E openflow instructions_len
              = (Error error, drop instructions_len openflow, []))"
proof -
  have none: "ofpacts_pull_openflow11_instructions E openflow instructions_len
              = (Error OFPERR_OFPBIC_UNSUP_INST, drop instructions_len openflow, [])"
    if "insts OVSINST_OFPIT11_APPLY_ACTIONS = None"
    using that al len framed present
    by (simp add: ofpacts_pull_openflow11_instructions_def ofpbuf_try_pull_def)
  have some: "ofpacts_pull_openflow11_instructions E openflow instructions_len
              = (case fst (ofpacts_from_openflow11 E (fst (get_actions_from_instruction inst))
                             (snd (get_actions_from_instruction inst)) []) of
                   Error error \<Rightarrow> Error error
                 | _ \<Rightarrow> Error OFPERR_OFPBIC_UNSUP_INST,
                 drop instructions_len openflow, [])"
    if ap: "insts OVSINST_OFPIT11_APPLY_ACTIONS = Some inst" for inst
  proof -
    obtain actions n_actions where g: "get_actions_from_instruction inst = (actions, n_actions)"
      by (cases "get_actions_from_instruction inst")
    obtain s out where r: "ofpacts_from_openflow11 E actions n_actions [] = (s, out)"
      by (cases "ofpacts_from_openflow11 E actions n_actions []")
    have "s \<noteq> NOT_REACHED"
      using ofpacts_from_openflow11_returns [of E actions n_actions "[]"] r by simp
    with al len framed present ap g r show ?thesis
      by (cases s) (simp_all add: ofpacts_pull_openflow11_instructions_def ofpbuf_try_pull_def)
  qed
  have "\<exists>error. ofpacts_pull_openflow11_instructions E openflow instructions_len
              = (Error error, drop instructions_len openflow, [])"
  proof (cases "insts OVSINST_OFPIT11_APPLY_ACTIONS")
    case None
    with none show ?thesis by simp
  next
    case (Some inst)
    show ?thesis
      unfolding some [OF Some]
      by (cases "fst (ofpacts_from_openflow11 E (fst (get_actions_from_instruction inst))
                             (snd (get_actions_from_instruction inst)) [])") simp_all
  qed
  with none some show ?thesis by blast
qed

lemma ex_goto:
  "decode_openflow11_instructions [0, 1, 0, 8, 5, 0, 0, 0] 1
     = Inr [OVSINST_OFPIT11_GOTO_TABLE \<mapsto> [0, 1, 0, 8, 5, 0, 0, 0]]"
  by (simp add: decode_openflow11_instructions_def decode_openflow11_instructions_loop.simps
        decode_openflow11_instruction_def OVS_INSTRUCTIONS_def
        string_literal_as_condition_def eval_defs)

theorem unsupported_instructions_witness:
  "decode_openflow11_instructions [0, 1, 0, 8, 5, 0, 0, 0] 1
     = Inr [OVSINST_OFPIT11_GOTO_TABLE \<mapsto> [0, 1, 0, 8, 5, 0, 0, 0]]
   \<and> ofpacts_pull_openflow11_instructions ext_spec [0, 1, 0, 8, 5, 0, 0, 0] 8
     = (Error OFPERR_OFPBIC_UNSUP_INST, [], [])"
  using unsupported_instructions [of 8 "[0, 1, 0, 8, 5, 0, 0, 0]"
          "[OVSINST_OFPIT11_GOTO_TABLE \<mapsto> [0, 1, 0, 8, 5, 0, 0, 0]]" ext_spec]
        ex_goto
  by simp

theorem unsupported_instructions_counterexample:
  "decode_openflow11_instructions
      [0, 1, 0, 8, 5, 0, 0, 0,  0, 4, 0, 16, 0, 0, 0, 0,  0, 1, 0, 8, 0x10, 0, 0, 0] 3
    = Inr [OVSINST_OFPIT11_GOTO_TABLE \<mapsto> [0, 1, 0, 8, 5, 0, 0, 0],
           OVSINST_OFPIT11_APPLY_ACTIONS \<mapsto>
             [0, 4, 0, 16, 0, 0, 0, 0,  0, 1, 0, 8, 0x10, 0, 0, 0]]
   \<and> ofpacts_pull_openflow11_instructions ext_spec
      [0, 1, 0, 8, 5, 0, 0, 0,  0, 4, 0, 16, 0, 0, 0, 0,  0, 1, 0, 8, 0x10, 0, 0, 0] 24
    = (Error OFPERR_OFPBAC_BAD_ARGUMENT, [], [])"
proof -
  have framed: "decode_openflow11_instructions
      [0, 1, 0, 8, 5, 0, 0, 0,  0, 4, 0, 16, 0, 0, 0, 0,  0, 1, 0, 8, 0x10, 0, 0, 0] 3
    = Inr [OVSINST_OFPIT11_GOTO_TABLE \<mapsto> [0, 1, 0, 8, 5, 0, 0, 0],
           OVSINST_OFPIT11_APPLY_ACTIONS \<mapsto>
             [0, 4, 0, 16, 0, 0, 0, 0,  0, 1, 0, 8, 0x10, 0, 0, 0]]"
    by (simp add: decode_openflow11_instructions_def decode_openflow11_instructions_loop.simps
          decode_openflow11_instruction_def OVS_INSTRUCTIONS_def
          string_literal_as_condition_def eval_defs)
  then show ?thesis
    by (simp add: ofpacts_pull_openflow11_instructions_def
          get_actions_from_instruction_def ofpacts_from_openflow11_def
          ofpacts_from_openflow.simps ofpact_from_openflow11_def
          decode_openflow11_action_def ofpat11_actions_def eval_defs)
qed

subsection \<open>Truncated streams\<close>

lemma ntohs_take: "2 \<le> j \<Longrightarrow> ntohs (take j xs) = ntohs xs"
  by (simp add: ntohs_def)

lemma header_len_take: "4 \<le> k \<Longrightarrow> ntohs (drop 2 (take k b)) = ntohs (drop 2 b)"
  by (simp add: drop_take ntohs_take)

lemma insts_loop_mono:
  "decode_openflow11_instructions_loop inst left out = Inr insts \<Longrightarrow> out t \<noteq> None
     \<Longrightarrow> insts t \<noteq> None"
proof (induction inst left out rule: decode_openflow11_instructions_loop.induct)
  case (1 inst left out)
  show ?case
  proof (cases "left > 0 \<and> instruction_is_valid inst left")
    case False
    with "1.prems" show ?thesis
      by (subst (asm) decode_openflow11_instructions_loop.simps) (auto split: if_splits)
  next
    case True
    let ?len = "unat (ntohs (drop 2 inst))"
    from True "1.prems"(1) obtain itype where
      d: "decode_openflow11_instruction (take ?len inst) = Inr itype" and
      n: "out itype = None" and
      rec: "decode_openflow11_instructions_loop (drop ?len inst)
              (left - ?len div sizeof_ofp11_instruction) (out(itype \<mapsto> take ?len inst)) = Inr insts"
      by (subst (asm) decode_openflow11_instructions_loop.simps)
         (auto simp: Let_def split: sum.splits if_splits)
    from "1.prems"(2) n have "(out(itype \<mapsto> take ?len inst)) t \<noteq> None" by auto
    from "1.IH" [OF True refl d _ rec this] n show ?thesis by simp
  qed
qed

lemma insts_loop_first:
  assumes "decode_openflow11_instructions_loop inst left out = Inr insts" and "left > 0"
  shows "instruction_is_valid inst left
       \<and> (\<exists>itype. decode_openflow11_instruction (take (unat (ntohs (drop 2 inst))) inst) = Inr itype
            \<and> out itype = None
            \<and> decode_openflow11_instructions_loop (drop (unat (ntohs (drop 2 inst))) inst)
                 (left - unat (ntohs (drop 2 inst)) div sizeof_ofp11_instruction)
                 (out(itype \<mapsto> take (unat (ntohs (drop 2 inst))) inst)) = Inr insts)"
  using assms
  by (subst (asm) decode_openflow11_instructions_loop.simps)
     (auto simp: Let_def split: sum.splits if_splits)

lemma apply_only_single:
  assumes run: "decode_openflow11_instructions_loop inst left Map.empty = Inr insts"
    and pos: "left > 0"
    and only: "\<And>t. t \<noteq> OVSINST_OFPIT11_APPLY_ACTIONS \<Longrightarrow> insts t = None"
  shows "unat (ntohs (drop 2 inst)) div sizeof_ofp11_instruction = left
       \<and> unat (ntohs (drop 2 inst)) mod OFP11_INSTRUCTION_ALIGN = 0"
proof -
  let ?len = "unat (ntohs (drop 2 inst))"
  from insts_loop_first [OF run pos] obtain t1 where
    v: "instruction_is_valid inst left" and
    rec: "decode_openflow11_instructions_loop (drop ?len inst) (left - ?len div 8)
            (Map.empty(t1 \<mapsto> take ?len inst)) = Inr insts"
    by auto
  have "insts t1 \<noteq> None"
    by (rule insts_loop_mono [OF rec]) simp
  with only [of t1] have t1: "t1 = OVSINST_OFPIT11_APPLY_ACTIONS" by auto
  have "left - ?len div 8 = 0"
  proof (rule ccontr)
    assume "left - ?len div 8 \<noteq> 0"
    then have "left - ?len div 8 > 0" by simp
    from insts_loop_first [OF rec this] obtain t2 where
      n2: "(Map.empty(t1 \<mapsto> take ?len inst)) t2 = None" and
      rec2: "decode_openflow11_instructions_loop
               (drop (unat (ntohs (drop 2 (drop ?len inst)))) (drop ?len inst))
               (left - ?len div 8 - unat (ntohs (drop 2 (drop ?len inst))) div 8)
               ((Map.empty(t1 \<mapsto> take ?len inst))
                  (t2 \<mapsto> take (unat (ntohs (drop 2 (drop ?len inst)))) (drop ?len inst)))
              = Inr insts"
      by auto
    from n2 have "t2 \<noteq> t1" by (auto split: if_splits)
    moreover have "insts t2 \<noteq> None"
      by (rule insts_loop_mono [OF rec2]) simp
    ultimately show False using only [of t2] t1 by auto
  qed
  with v show ?thesis
    by (auto simp: instruction_is_valid_def Let_def)
qed

lemma insts_loop_truncated:
  assumes "0 < m" and "m < unat (ntohs (drop 2 inst)) div sizeof_ofp11_instruction"
  shows "decode_openflow11_instructions_loop inst m out = Inl OFPERR_OFPBIC_BAD_LEN"
  using assms
  by (subst decode_openflow11_instructions_loop.simps)
     (simp add: instruction_is_valid_def Let_def)


declare is_action_boundary.simps [simp del]

lemma ofpact_from_nxast_appends:
  "decode_nxast_action a = Inr code \<Longrightarrow> \<exists>new. snd (ofpact_from_nxast E a code out) = out @ new"
  by (auto simp: decode_nxast_action_def Let_def nxast_actions_def
        output_reg_from_openflow_def resubmit_table_from_openflow_def resubmit_from_openflow_def
        note_from_openflow_def fin_timeout_from_openflow_def controller_from_openflow_def
        ofpact_put_def ofpact_put_compat_def
        split: if_splits prod.splits option.splits)

lemma ofpact_from_openflow10_appends: "\<exists>new. snd (ofpact_from_openflow10 E a out) = out @ new"
proof (cases "decode_openflow10_action a")
  case (Inl e)
  then show ?thesis by (simp add: ofpact_from_openflow10_def)
next
  case (Inr code)
  show ?thesis
  proof (cases "ntohs a = OFPAT10_VENDOR")
    case True
    with Inr have d: "decode_nxast_action a = Inr code"
      by (simp add: decode_openflow10_action_def)
    from ofpact_from_nxast_appends [OF d, of E out] ofpact_from_nxast_returns [OF d, of E out] Inr
    show ?thesis
      by (simp add: ofpact_from_openflow10_def)
  next
    case False
    with Inr show ?thesis
      by (auto simp: ofpact_from_openflow10_def decode_openflow10_action_def ofpat10_actions_def
            output_from_openflow10_def enqueue_from_openflow10_def Let_def ofpact_put_def
            split: if_splits option.splits)
  qed
qed

lemma units_diff: "x mod 8 = 0 \<Longrightarrow> (x::nat) \<le> 8 * m \<Longrightarrow> 8 * (m - x div 8) = 8 * m - x"
  by (auto simp: mod_eq_0_iff_dvd diff_mult_distrib2)

lemma units_less:
  "x mod 8 = 0 \<Longrightarrow> (x::nat) \<le> 8 * m \<Longrightarrow> m < n \<Longrightarrow> m - x div 8 < n - x div 8"
  by (auto simp: mod_eq_0_iff_dvd)

lemma units_le: "x mod 8 = 0 \<Longrightarrow> (x::nat) \<le> 8 * m \<longleftrightarrow> x div 8 \<le> m"
  by (auto simp: mod_eq_0_iff_dvd)

lemma loop_first:
  assumes "ofpacts_from_openflow a n out f = (OK, res)" and "n > 0"
  shows "action_is_valid a n
       \<and> (\<exists>out1. f (take (unat (ntohs (drop 2 a))) a) out = (OK, out1)
            \<and> ofpacts_from_openflow (drop (unat (ntohs (drop 2 a))) a)
                 (n - unat (ntohs (drop 2 a)) div sizeof_ofp_action) out1 f = (OK, res))"
  using assms
  by (subst (asm) ofpacts_from_openflow.simps)
     (auto simp: Let_def split: prod.splits status.splits if_splits)

lemma loop_result_shape:
  assumes "\<And>a out. \<exists>new. snd (f a out) = out @ new"
  shows "ofpacts_from_openflow a n out f = (OK, res) \<Longrightarrow> \<exists>more. res = out @ more @ [END_entry]"
  using assms
proof (induction a n out f rule: ofpacts_from_openflow.induct)
  case (1 a n out f)
  note app = \<open>\<And>a out. \<exists>new. snd (f a out) = out @ new\<close>
  show ?case
  proof (cases "n > 0")
    case False
    with "1.prems"(1) show ?thesis
      by (subst (asm) ofpacts_from_openflow.simps) (auto simp: ofpact_put_def)
  next
    case True
    let ?len = "unat (ntohs (drop 2 a))"
    from loop_first [OF "1.prems"(1) True] obtain out1 where
      v: "action_is_valid a n" and
      f1: "f (take ?len a) out = (OK, out1)" and
      rec: "ofpacts_from_openflow (drop ?len a) (n - ?len div sizeof_ofp_action) out1 f = (OK, res)"
      by auto
    from True v have c: "0 < n \<and> action_is_valid a n" by simp
    from "1.IH" [OF c refl f1 [symmetric] refl rec app] obtain more where
      "res = out1 @ more @ [END_entry]" by auto
    moreover from app [of "take ?len a" out] f1 obtain new where "out1 = out @ new" by auto
    ultimately show ?thesis by auto
  qed
qed

lemma loop_truncate:
  assumes "\<And>a out. \<exists>new. snd (f a out) = out @ new"
  shows "ofpacts_from_openflow a n out f = (OK, res) \<Longrightarrow> m < n \<Longrightarrow>
     (if is_action_boundary a n (8 * m)
      then \<exists>pre more. res = out @ pre @ more @ [END_entry]
             \<and> ofpacts_from_openflow (take (8 * m) a) m out f = (OK, out @ pre @ [END_entry])
      else fst (ofpacts_from_openflow (take (8 * m) a) m out f) = Error OFPERR_OFPBAC_BAD_LEN)"
  using assms
proof (induction a n out f arbitrary: m rule: ofpacts_from_openflow.induct)
  case (1 a n out f)
  note app = \<open>\<And>a out. \<exists>new. snd (f a out) = out @ new\<close>
  let ?len = "unat (ntohs (drop 2 a))"
  from "1.prems"(2) have npos: "n > 0" by simp
  from loop_first [OF "1.prems"(1) npos] obtain out1 where
    v: "action_is_valid a n" and
    f1: "f (take ?len a) out = (OK, out1)" and
    rec: "ofpacts_from_openflow (drop ?len a) (n - ?len div sizeof_ofp_action) out1 f = (OK, res)"
    by auto
  from npos v have c: "0 < n \<and> action_is_valid a n" by simp
  from v have lenmod: "?len mod 8 = 0" and len8: "?len \<ge> 8" and lenn: "?len div 8 \<le> n"
    by (auto simp: action_is_valid_def Let_def)
  show ?case
  proof (cases "m = 0")
    case True
    from loop_result_shape [OF app "1.prems"(1)] obtain more where
      "res = out @ more @ [END_entry]" by auto
    with True show ?thesis
      by (subst is_action_boundary.simps, subst ofpacts_from_openflow.simps)
         (simp add: ofpact_put_def)
  next
    case False
    then have hdr: "unat (ntohs (drop 2 (take (8 * m) a))) = ?len"
      by (simp add: header_len_take)
    show ?thesis
    proof (cases "?len \<le> 8 * m")
      case fits: True
      let ?m' = "m - ?len div 8"
      from lenmod fits have m': "8 * ?m' = 8 * m - ?len" by (rule units_diff)
      from fits lenmod "1.prems"(2) have lt: "?m' < n - ?len div 8" by (simp add: units_less)
      from fits lenmod len8 have vt: "action_is_valid (take (8 * m) a) m"
        by (simp add: action_is_valid_def Let_def hdr units_le)
      from fits have tk: "min ?len (8 * m) = ?len"
        by simp
      have dr: "drop ?len (take (8 * m) a) = take (8 * ?m') (drop ?len a)"
        by (simp add: drop_take m')
      have trunc: "ofpacts_from_openflow (take (8 * m) a) m out f
                 = ofpacts_from_openflow (take (8 * ?m') (drop ?len a)) ?m' out1 f"
        using False vt f1
        by (subst ofpacts_from_openflow.simps) (simp add: Let_def hdr tk dr)
      have bd: "is_action_boundary a n (8 * m)
              = is_action_boundary (drop ?len a) (n - ?len div 8) (8 * ?m')"
        using False npos v fits
        by (subst is_action_boundary.simps) (simp add: m')
      from app [of "take ?len a" out] f1 obtain new where new: "out1 = out @ new" by auto
      from "1.IH" [OF c refl f1 [symmetric] refl rec lt app]
      show ?thesis
        unfolding trunc bd new by (auto split: if_splits)
    next
      case cut: False
      with lenmod have "\<not> ?len div 8 \<le> m" by (simp add: units_le)
      with False have "ofpacts_from_openflow (take (8 * m) a) m out f
                    = (Error OFPERR_OFPBAC_BAD_LEN, out)"
        by (subst ofpacts_from_openflow.simps) (simp add: action_is_valid_def Let_def hdr)
      moreover from False cut have "\<not> is_action_boundary a n (8 * m)"
        by (subst is_action_boundary.simps) simp
      ultimately show ?thesis by simp
    qed
  qed
qed
lemma pull11_ok_framed:
  assumes "ofpacts_pull_openflow11_instructions E openflow N = (OK, rest, full)"
  shows "N mod OFP11_INSTRUCTION_ALIGN = 0 \<and> N \<le> length openflow
       \<and> (\<exists>insts. decode_openflow11_instructions (take N openflow)
                     (N div OFP11_INSTRUCTION_ALIGN) = Inr insts
              \<and> (\<forall>t. t \<noteq> OVSINST_OFPIT11_APPLY_ACTIONS \<longrightarrow> insts t = None))"
proof -
  from assms have al: "N mod OFP11_INSTRUCTION_ALIGN = 0" and len: "N \<le> length openflow"
    by (auto simp: ofpacts_pull_openflow11_instructions_def ofpbuf_try_pull_def
          split: if_splits)
  with assms obtain insts where
    d: "decode_openflow11_instructions (take N openflow) (N div OFP11_INSTRUCTION_ALIGN)
          = Inr insts"
    by (cases "decode_openflow11_instructions (take N openflow) (N div OFP11_INSTRUCTION_ALIGN)")
       (auto simp: ofpacts_pull_openflow11_instructions_def ofpbuf_try_pull_def)
  from assms al len d have
    "insts OVSINST_OFPIT11_GOTO_TABLE = None \<and> insts OVSINST_OFPIT11_WRITE_METADATA = None
     \<and> insts OVSINST_OFPIT11_WRITE_ACTIONS = None \<and> insts OVSINST_OFPIT11_CLEAR_ACTIONS = None"
    by (simp add: ofpacts_pull_openflow11_instructions_def ofpbuf_try_pull_def Let_def
          split: prod.splits status.splits if_splits)
  then have "t \<noteq> OVSINST_OFPIT11_APPLY_ACTIONS \<longrightarrow> insts t = None" for t
    by (cases t) simp_all
  then have "\<forall>t. t \<noteq> OVSINST_OFPIT11_APPLY_ACTIONS \<longrightarrow> insts t = None"
    by blast
  with al len d show ?thesis by blast
qed

text \<open>
  C1 (amended).  Let \<open>k < N\<close>.
  (a) When the buffer holds only the first \<open>k\<close> bytes and the declared length is
  still \<open>N\<close>, both entry points return \<^verbatim>\<open>OFPBRC_BAD_LEN\<close> with the list cleared.
  (b) When the declared length is \<open>k\<close> and \<open>k\<close> is not a multiple of 8, both entry
  points return \<^verbatim>\<open>OFPBRC_BAD_LEN\<close> with the list cleared and nothing pulled.
  (c) 1.1: when the stream of length \<open>N\<close> parses, parsing a positive multiple of 8
  \<open>k\<close> returns \<^verbatim>\<open>OFPBIC_BAD_LEN\<close> with the list cleared; parsing length 0 succeeds
  with the empty list.
  (d) 1.0: when the action parser accepts the stream of length \<open>N\<close> and \<open>k\<close> is a
  multiple of 8: if \<open>k\<close> cuts an action, the action parser fails with
  \<^verbatim>\<open>OFPBAC_BAD_LEN\<close> and the entry point leaves the list cleared; if \<open>k\<close> is a boundary
  between actions, the entry point succeeds with a prefix of the full list, closed
  by \<^verbatim>\<open>OFPACT_END\<close>.
\<close>

theorem truncated_stream:
  assumes "k < N"
  shows
    "ofpacts_pull_openflow10 E (take k openflow) N
       = (Error OFPERR_OFPBRC_BAD_LEN, take k openflow, [])
   \<and> ofpacts_pull_openflow11_instructions E (take k openflow) N
       = (Error OFPERR_OFPBRC_BAD_LEN, take k openflow, [])
   \<and> (k mod 8 \<noteq> 0 \<longrightarrow>
        ofpacts_pull_openflow10 E openflow k = (Error OFPERR_OFPBRC_BAD_LEN, openflow, [])
      \<and> ofpacts_pull_openflow11_instructions E openflow k
          = (Error OFPERR_OFPBRC_BAD_LEN, openflow, []))
   \<and> (ofpacts_pull_openflow11_instructions E openflow N = (OK, rest, full11) \<longrightarrow>
        (k = 0 \<longrightarrow>
           ofpacts_pull_openflow11_instructions E openflow k = (OK, openflow, [END_entry]))
      \<and> (0 < k \<and> k mod 8 = 0 \<longrightarrow>
           ofpacts_pull_openflow11_instructions E openflow k
             = (Error OFPERR_OFPBIC_BAD_LEN, drop k openflow, [])))
   \<and> (N mod 8 = 0 \<and> N \<le> length openflow
        \<and> ofpacts_from_openflow10 E (take N openflow) (N div 8) [] = (OK, full10)
        \<and> k mod 8 = 0 \<longrightarrow>
        (if is_action_boundary (take N openflow) (N div 8) k
         then \<exists>pre more. full10 = pre @ more @ [END_entry]
                \<and> ofpacts_pull_openflow10 E openflow k = (OK, drop k openflow, pre @ [END_entry])
         else fst (ofpacts_from_openflow10 E (take k openflow) (k div 8) [])
                = Error OFPERR_OFPBAC_BAD_LEN
              \<and> snd (snd (ofpacts_pull_openflow10 E openflow k)) = []))"
proof (intro conjI impI)
  from assms show "ofpacts_pull_openflow10 E (take k openflow) N
       = (Error OFPERR_OFPBRC_BAD_LEN, take k openflow, [])"
    by (simp add: ofpacts_pull_openflow10_def ofpbuf_try_pull_def)
next
  from assms show "ofpacts_pull_openflow11_instructions E (take k openflow) N
       = (Error OFPERR_OFPBRC_BAD_LEN, take k openflow, [])"
    by (simp add: ofpacts_pull_openflow11_instructions_def ofpbuf_try_pull_def)
next
  assume "k mod 8 \<noteq> 0"
  then show "ofpacts_pull_openflow10 E openflow k = (Error OFPERR_OFPBRC_BAD_LEN, openflow, [])"
    by (simp add: ofpacts_pull_openflow10_def)
next
  assume "k mod 8 \<noteq> 0"
  then show "ofpacts_pull_openflow11_instructions E openflow k
          = (Error OFPERR_OFPBRC_BAD_LEN, openflow, [])"
    by (simp add: ofpacts_pull_openflow11_instructions_def)
next
  assume "k = 0"
  then show "ofpacts_pull_openflow11_instructions E openflow k = (OK, openflow, [END_entry])"
    by (simp add: ofpacts_pull_openflow11_instructions_def ofpbuf_try_pull_def
          decode_openflow11_instructions_def decode_openflow11_instructions_loop.simps
          ofpact_put_def)
next
  assume ok: "ofpacts_pull_openflow11_instructions E openflow N = (OK, rest, full11)"
    and k: "0 < k \<and> k mod 8 = 0"
  from pull11_ok_framed [OF ok] obtain insts where
    al: "N mod 8 = 0" and len: "N \<le> length openflow" and
    d: "decode_openflow11_instructions_loop (take N openflow) (N div 8) Map.empty = Inr insts" and
    only: "\<And>t. t \<noteq> OVSINST_OFPIT11_APPLY_ACTIONS \<Longrightarrow> insts t = None"
    by (auto simp: decode_openflow11_instructions_def)
  from k assms al have k8: "8 \<le> k" and N8: "8 \<le> N" and kd: "0 < k div 8" "k div 8 < N div 8"
    by (auto simp: mod_eq_0_iff_dvd)
  then have Npos: "0 < N div 8" by simp
  from apply_only_single [OF d Npos only]
  have "unat (ntohs (drop 2 (take N openflow))) div 8 = N div 8" by simp
  with k8 N8 have "unat (ntohs (drop 2 (take k openflow))) div 8 = N div 8"
    by (simp add: header_len_take)
  with kd have "decode_openflow11_instructions_loop (take k openflow) (k div 8) Map.empty
                  = Inl OFPERR_OFPBIC_BAD_LEN"
    by (intro insts_loop_truncated) simp_all
  with k assms len show "ofpacts_pull_openflow11_instructions E openflow k
             = (Error OFPERR_OFPBIC_BAD_LEN, drop k openflow, [])"
    by (simp add: ofpacts_pull_openflow11_instructions_def ofpbuf_try_pull_def
          decode_openflow11_instructions_def)
next
  assume h: "N mod 8 = 0 \<and> N \<le> length openflow
        \<and> ofpacts_from_openflow10 E (take N openflow) (N div 8) [] = (OK, full10)
        \<and> k mod 8 = 0"
  let ?a = "take N openflow" and ?f = "ofpact_from_openflow10 E"
  from h have run: "ofpacts_from_openflow ?a (N div 8) [] ?f = (OK, full10)"
    by (simp add: ofpacts_from_openflow10_def)
  from h assms have m: "k div 8 < N div 8" and k8: "8 * (k div 8) = k"
    by (auto simp: mod_eq_0_iff_dvd)
  from assms have tk: "take k ?a = take k openflow" by (simp add: min_def)
  from h assms have klen: "k \<le> length openflow" by simp
  note tr = loop_truncate [of ?f ?a "N div 8" "[]" full10 "k div 8",
      OF ofpact_from_openflow10_appends run m, unfolded k8 tk]
  show "if is_action_boundary (take N openflow) (N div 8) k
         then \<exists>pre more. full10 = pre @ more @ [END_entry]
                \<and> ofpacts_pull_openflow10 E openflow k = (OK, drop k openflow, pre @ [END_entry])
         else fst (ofpacts_from_openflow10 E (take k openflow) (k div 8) [])
                = Error OFPERR_OFPBAC_BAD_LEN
              \<and> snd (snd (ofpacts_pull_openflow10 E openflow k)) = []"
  proof (cases "is_action_boundary (take N openflow) (N div 8) k")
    case True
    with tr obtain pre more where
      "full10 = pre @ more @ [END_entry]"
      "ofpacts_from_openflow (take k openflow) (k div 8) [] ?f = (OK, pre @ [END_entry])"
      by auto
    with True h klen show ?thesis
      by (auto simp: ofpacts_pull_openflow10_def ofpbuf_try_pull_def ofpacts_from_openflow10_def)
  next
    case False
    with tr have e: "fst (ofpacts_from_openflow (take k openflow) (k div 8) [] ?f)
                   = Error OFPERR_OFPBAC_BAD_LEN"
      by simp
    then obtain out where
      "ofpacts_from_openflow (take k openflow) (k div 8) [] ?f = (Error OFPERR_OFPBAC_BAD_LEN, out)"
      by (cases "ofpacts_from_openflow (take k openflow) (k div 8) [] ?f") simp
    with False h klen show ?thesis
      by (simp add: ofpacts_pull_openflow10_def ofpbuf_try_pull_def ofpacts_from_openflow10_def)
  qed
qed

theorem truncated_stream_witness:
  "ofpacts_pull_openflow11_instructions ext_spec
        [0, 4, 0, 24, 0, 0, 0, 0,  0, 0, 0, 16, 0, 0, 0, 1, 0, 0, 0, 0, 0, 0, 0, 0] 24
     = (OK, [], [put_entry (OFPACT_OUTPUT 1 0), END_entry, END_entry])
   \<and> ofpacts_pull_openflow11_instructions ext_spec
        [0, 4, 0, 24, 0, 0, 0, 0,  0, 0, 0, 16, 0, 0, 0, 1, 0, 0, 0, 0, 0, 0, 0, 0] 16
     = (Error OFPERR_OFPBIC_BAD_LEN, [0, 0, 0, 0, 0, 0, 0, 0], [])
   \<and> ofpacts_pull_openflow11_instructions ext_spec
        [0, 4, 0, 24, 0, 0, 0, 0,  0, 0, 0, 16, 0, 0, 0, 1, 0, 0, 0, 0, 0, 0, 0, 0] 12
     = (Error OFPERR_OFPBRC_BAD_LEN,
        [0, 4, 0, 24, 0, 0, 0, 0,  0, 0, 0, 16, 0, 0, 0, 1, 0, 0, 0, 0, 0, 0, 0, 0], [])
   \<and> ofpacts_from_openflow10 ext_spec
        [0, 11, 0, 16, 0, 3, 0, 0, 0, 0, 0, 0, 0, 0, 0, 7,  0, 0, 0, 8, 0, 2, 0, 0] 3 []
     = (OK, [put_entry (OFPACT_ENQUEUE 3 7), put_entry (OFPACT_OUTPUT 2 0), END_entry])
   \<and> \<not> is_action_boundary
        [0, 11, 0, 16, 0, 3, 0, 0, 0, 0, 0, 0, 0, 0, 0, 7,  0, 0, 0, 8, 0, 2, 0, 0] 3 8
   \<and> fst (ofpacts_from_openflow10 ext_spec [0, 11, 0, 16, 0, 3, 0, 0] 1 [])
     = Error OFPERR_OFPBAC_BAD_LEN
   \<and> snd (snd (ofpacts_pull_openflow10 ext_spec
        [0, 11, 0, 16, 0, 3, 0, 0, 0, 0, 0, 0, 0, 0, 0, 7,  0, 0, 0, 8, 0, 2, 0, 0] 8)) = []
   \<and> is_action_boundary
        [0, 11, 0, 16, 0, 3, 0, 0, 0, 0, 0, 0, 0, 0, 0, 7,  0, 0, 0, 8, 0, 2, 0, 0] 3 16
   \<and> ofpacts_pull_openflow10 ext_spec
        [0, 11, 0, 16, 0, 3, 0, 0, 0, 0, 0, 0, 0, 0, 0, 7,  0, 0, 0, 8, 0, 2, 0, 0] 16
     = (OK, [0, 0, 0, 8, 0, 2, 0, 0], [put_entry (OFPACT_ENQUEUE 3 7), END_entry])"
  using
    truncated_stream [of 16 24 ext_spec
      "[0, 4, 0, 24, 0, 0, 0, 0,  0, 0, 0, 16, 0, 0, 0, 1, 0, 0, 0, 0, 0, 0, 0, 0]" "[]"
      "[put_entry (OFPACT_OUTPUT 1 0), END_entry, END_entry]"]
    truncated_stream [of 8 24 ext_spec
      "[0, 11, 0, 16, 0, 3, 0, 0, 0, 0, 0, 0, 0, 0, 0, 7,  0, 0, 0, 8, 0, 2, 0, 0]" _ _
      "[put_entry (OFPACT_ENQUEUE 3 7), put_entry (OFPACT_OUTPUT 2 0), END_entry]"]
  by (simp add: parse_eval parse10_eval parse11_eval eval_defs is_action_boundary.simps)

text \<open>
  The claim as stated fails where the cut falls between two actions: the first of two
  \<^verbatim>\<open>OUTPUT\<close> actions parses on its own, with no error in the action parser, and the
  list holds one of the two entries.  For 1.1, length 0 of a valid stream parses to the
  empty list.
\<close>

theorem truncated_stream_counterexample:
  "ofpacts_pull_openflow10 ext_spec [0, 0, 0, 8, 0, 1, 0, 0,  0, 0, 0, 8, 0, 2, 0, 0] 16
     = (OK, [], [put_entry (OFPACT_OUTPUT 1 0), put_entry (OFPACT_OUTPUT 2 0), END_entry])
   \<and> ofpacts_from_openflow10 ext_spec [0, 0, 0, 8, 0, 1, 0, 0] 1 []
     = (OK, [put_entry (OFPACT_OUTPUT 1 0), END_entry])
   \<and> ofpacts_pull_openflow10 ext_spec [0, 0, 0, 8, 0, 1, 0, 0] 8
     = (OK, [], [put_entry (OFPACT_OUTPUT 1 0), END_entry])
   \<and> ofpacts_pull_openflow10 ext_spec [0, 0, 0, 8, 0, 1, 0, 0,  0, 0, 0, 8, 0, 2, 0, 0] 8
     = (OK, [0, 0, 0, 8, 0, 2, 0, 0], [put_entry (OFPACT_OUTPUT 1 0), END_entry])
   \<and> ofpacts_pull_openflow11_instructions ext_spec
        [0, 4, 0, 24, 0, 0, 0, 0,  0, 0, 0, 16, 0, 0, 0, 1, 0, 0, 0, 0, 0, 0, 0, 0] 24
     = (OK, [], [put_entry (OFPACT_OUTPUT 1 0), END_entry, END_entry])
   \<and> ofpacts_pull_openflow11_instructions ext_spec [] 0 = (OK, [], [END_entry])"
  by (simp add: parse_eval parse10_eval parse11_eval eval_defs)

subsection \<open>Round trip through OpenFlow 1.0\<close>

lemma note_len: "(10 + length data + note_pad data) mod 8 = 0 \<and> 16 \<le> 10 + length data + note_pad data"
  unfolding note_pad_def Let_def
  by (auto simp: mod_eq_0_iff_dvd) presburger+


lemma unat_of_nat16: "n < 65536 \<Longrightarrow> unat (of_nat n :: 16 word) = n"
  by (simp add: unsigned_of_nat take_bit_nat_eq_self_iff)

lemma not_masks:
  "(- 4096 :: 16 word) = 0xf000" "(- 8 :: 8 word) = 0xf8" "(- 253 :: 8 word) = 0x03"
  by simp_all

lemmas emit10_defs =
  ofpact_to_openflow10_def ofpact_output_to_openflow10_def ofpact_enqueue_to_openflow10_def
  ofpact_to_nxast_def ofpact_controller_to_nxast_def ofpact_fin_timeout_to_nxast_def
  ofpact_set_tunnel_to_nxast_def ofpact_resubmit_to_nxast_def ofpact_note_to_nxast_def
  ofpact_output_reg_to_nxast_def

lemma note_pad_eq:
  "(if (10 + length data) mod 8 \<noteq> 0 then 8 - (10 + length data) mod 8 else 0) = note_pad data"
  by (simp add: note_pad_def Let_def)

lemma emit_appends:
  "expressible10 E (type a) \<Longrightarrow> ofpact_to_openflow10 E a out = Some (out @ wire10 E a)"
  by (cases "type a") (auto simp: wire10_def emit10_defs Let_def split: option.splits)

lemma wire10_note:
  "type a = OFPACT_NOTE data \<Longrightarrow>
     wire10 E a = nx_action_header NXAST_NOTE (of_nat (10 + length data + note_pad data))
                    @ data @ zeros (note_pad data)"
  by (simp add: wire10_def emit10_defs Let_def note_pad_def)

lemma nx_header_len: "ntohs (drop 2 (nx_action_header st len) @ r) = len"
  by (simp add: nx_action_header_def)

lemma wire10_unit_ok: "expressible10 E (type a) \<Longrightarrow> unit_ok (wire10 E a)"
proof (cases "type a")
  case (OFPACT_NOTE data)
  assume e: "expressible10 E (type a)"
  define n where "n = 10 + length data + note_pad data"
  from note_len [of data] have n8: "n mod 8 = 0" "16 \<le> n" by (simp_all add: n_def)
  from e OFPACT_NOTE have nlt: "n < 65536" by (simp add: n_def)
  have w: "wire10 E a = nx_action_header NXAST_NOTE (of_nat n) @ data @ zeros (note_pad data)"
    unfolding n_def by (rule wire10_note [OF OFPACT_NOTE])
  have "length (wire10 E a) = n" by (simp add: w n_def)
  with n8 nlt show ?thesis
    by (simp add: unit_ok_def) (simp add: w nx_header_len unat_of_nat16)
qed (auto simp: wire10_def emit10_defs Let_def unit_ok_def nx_unit_def nx_action_header_def
       split: option.splits)

lemma is_all_zeros_zeros [simp]: "is_all_zeros (zeros n)"
  by (simp add: is_all_zeros_def zeros_def list_all_iff)

lemma decode10_nx_unit:
  assumes "nx_unit act subtype" and "map_of nxast_actions subtype = Some (code, sz, extensible)"
    and "if extensible then sz \<le> length act else length act = sz" and "16 \<le> length act"
  shows "decode_openflow10_action act = Inr code"
  using assms
  by (cases extensible)
     (simp_all add: nx_unit_def unit_ok_def decode_openflow10_action_def decode_nxast_action_def
        Let_def)

lemma nxast_rows:
  "map_of nxast_actions NXAST_BUNDLE = Some (OFPUTIL_NXAST_BUNDLE, 32, True)"
  "map_of nxast_actions NXAST_BUNDLE_LOAD = Some (OFPUTIL_NXAST_BUNDLE_LOAD, 32, True)"
  "map_of nxast_actions NXAST_REG_MOVE = Some (OFPUTIL_NXAST_REG_MOVE, 24, False)"
  "map_of nxast_actions NXAST_REG_LOAD = Some (OFPUTIL_NXAST_REG_LOAD, 24, False)"
  "map_of nxast_actions NXAST_LEARN = Some (OFPUTIL_NXAST_LEARN, 32, True)"
  "map_of nxast_actions NXAST_MULTIPATH = Some (OFPUTIL_NXAST_MULTIPATH, 32, False)"
  "map_of nxast_actions NXAST_AUTOPATH = Some (OFPUTIL_NXAST_AUTOPATH, 24, False)"
  by (simp_all add: nxast_actions_def)

lemma parse_wire10:
  "expressible10 E (type a) \<Longrightarrow>
     ofpact_from_openflow10 E (wire10 E a) out = (OK, out @ [reparsed10 a])"
proof (cases "type a")
  case (OFPACT_NOTE data)
  assume e: "expressible10 E (type a)"
  define n where "n = 10 + length data + note_pad data"
  from note_len [of data] have n8: "n mod 8 = 0" "16 \<le> n" by (simp_all add: n_def)
  from e OFPACT_NOTE have nlt: "n < 65536" by (simp add: n_def)
  have w: "wire10 E a = nx_action_header NXAST_NOTE (of_nat n) @ data @ zeros (note_pad data)"
    unfolding n_def by (rule wire10_note [OF OFPACT_NOTE])
  have n10: "n - 10 = length data + note_pad data" by (simp add: n_def)
  from n8 nlt OFPACT_NOTE show ?thesis
    by (simp add: w ofpact_from_openflow10_def decode_openflow10_action_def
          decode_nxast_action_def nx_action_header_def nxast_actions_def unat_of_nat16
          note_from_openflow_def ofpact_put_def reparsed10_def n10)
next
  case (OFPACT_ENQUEUE port queue)
  assume "expressible10 E (type a)"
  with OFPACT_ENQUEUE show ?thesis
    by (auto simp: wire10_def emit10_defs ofpact_from_openflow10_def decode_openflow10_action_def
          ofpat10_actions_def enqueue_from_openflow10_def ofpact_put_def reparsed10_def Let_def)
next
  case (OFPACT_OUTPUT_REG src max_len)
  assume e: "expressible10 E (type a)"
  from OFPACT_OUTPUT_REG e obtain f where f: "field src = Some f"
    and h: "mf_from_nxm_header E (mf_nxm_header E f) = Some f"
      "nxm_decode_ofs E (nxm_encode_ofs_nbits E (ofs src) (n_bits src)) = ofs src"
      "nxm_decode_n_bits E (nxm_encode_ofs_nbits E (ofs src) (n_bits src)) = n_bits src"
      "mf_check_src E src = None"
    by (cases "field src") auto
  let ?act = "nx_action_header NXAST_OUTPUT_REG 24
                 @ htons (nxm_encode_ofs_nbits E (ofs src) (n_bits src))
                 @ htonl (mf_nxm_header E f) @ htons max_len @ zeros 6"
  from OFPACT_OUTPUT_REG f have w: "wire10 E a = ?act"
    by (simp add: wire10_def emit10_defs)
  have d: "decode_openflow10_action ?act = Inr OFPUTIL_NXAST_OUTPUT_REG"
    by (simp add: decode_openflow10_action_def decode_nxast_action_def nx_action_header_def
          nxast_actions_def)
  have src: "\<lparr>field = Some f, ofs = ofs src, n_bits = n_bits src\<rparr> = src"
    using f by (cases src) simp
  have p: "output_reg_from_openflow E ?act out
             = (OK, out @ [\<lparr>compat = OFPUTIL_ACTION_INVALID,
                              type = OFPACT_OUTPUT_REG src max_len\<rparr>])"
    by (simp add: output_reg_from_openflow_def nx_action_header_def h src ofpact_put_def)
  from OFPACT_OUTPUT_REG show ?thesis
    by (simp add: w ofpact_from_openflow10_def d p reparsed10_def del: append_assoc)
next
  case (OFPACT_BUNDLE b)
  assume e: "expressible10 E (type a)"
  let ?act = "bundle_to_openflow E b"
  from OFPACT_BUNDLE have w: "wire10 E a = ?act" by (simp add: wire10_def emit10_defs)
  from e OFPACT_BUNDLE have l: "32 \<le> length ?act"
    and r: "bundle_from_openflow E ?act
              = (None, [\<lparr>compat = OFPUTIL_ACTION_INVALID, type = OFPACT_BUNDLE b\<rparr>])"
    and u: "nx_unit ?act NXAST_BUNDLE \<or> nx_unit ?act NXAST_BUNDLE_LOAD"
    by simp_all
  from u l have "decode_openflow10_action ?act = Inr OFPUTIL_NXAST_BUNDLE
               \<or> decode_openflow10_action ?act = Inr OFPUTIL_NXAST_BUNDLE_LOAD"
    using decode10_nx_unit [OF _ nxast_rows(1), of ?act] decode10_nx_unit [OF _ nxast_rows(2), of ?act]
    by auto
  with OFPACT_BUNDLE r show ?thesis
    by (auto simp: w ofpact_from_openflow10_def reparsed10_def)
next
  case (OFPACT_REG_MOVE m)
  assume e: "expressible10 E (type a)"
  let ?act = "nxm_reg_move_to_openflow E m"
  from OFPACT_REG_MOVE have w: "wire10 E a = ?act" by (simp add: wire10_def emit10_defs)
  from e OFPACT_REG_MOVE have u: "nx_unit ?act NXAST_REG_MOVE" and l: "length ?act = 24"
    and r: "nxm_reg_move_from_openflow E ?act
              = (None, [\<lparr>compat = OFPUTIL_ACTION_INVALID, type = OFPACT_REG_MOVE m\<rparr>])"
    by simp_all
  from l have "decode_openflow10_action ?act = Inr OFPUTIL_NXAST_REG_MOVE"
    by (intro decode10_nx_unit [OF u nxast_rows(3)]) simp_all
  with OFPACT_REG_MOVE r show ?thesis
    by (simp add: w ofpact_from_openflow10_def reparsed10_def)
next
  case (OFPACT_REG_LOAD m)
  assume e: "expressible10 E (type a)"
  let ?act = "nxm_reg_load_to_openflow E m"
  from OFPACT_REG_LOAD have w: "wire10 E a = ?act" by (simp add: wire10_def emit10_defs)
  from e OFPACT_REG_LOAD have u: "nx_unit ?act NXAST_REG_LOAD" and l: "length ?act = 24"
    and r: "nxm_reg_load_from_openflow E ?act
              = (None, [\<lparr>compat = OFPUTIL_ACTION_INVALID, type = OFPACT_REG_LOAD m\<rparr>])"
    by simp_all
  from l have "decode_openflow10_action ?act = Inr OFPUTIL_NXAST_REG_LOAD"
    by (intro decode10_nx_unit [OF u nxast_rows(4)]) simp_all
  with OFPACT_REG_LOAD r show ?thesis
    by (simp add: w ofpact_from_openflow10_def reparsed10_def)
next
  case (OFPACT_LEARN m)
  assume e: "expressible10 E (type a)"
  let ?act = "learn_to_openflow E m"
  from OFPACT_LEARN have w: "wire10 E a = ?act" by (simp add: wire10_def emit10_defs)
  from e OFPACT_LEARN have u: "nx_unit ?act NXAST_LEARN" and l: "32 \<le> length ?act"
    and r: "learn_from_openflow E ?act
              = (None, [\<lparr>compat = OFPUTIL_ACTION_INVALID, type = OFPACT_LEARN m\<rparr>])"
    by simp_all
  from l have "decode_openflow10_action ?act = Inr OFPUTIL_NXAST_LEARN"
    by (intro decode10_nx_unit [OF u nxast_rows(5)]) simp_all
  with OFPACT_LEARN r show ?thesis
    by (simp add: w ofpact_from_openflow10_def reparsed10_def)
next
  case (OFPACT_MULTIPATH m)
  assume e: "expressible10 E (type a)"
  let ?act = "multipath_to_openflow E m"
  from OFPACT_MULTIPATH have w: "wire10 E a = ?act" by (simp add: wire10_def emit10_defs)
  from e OFPACT_MULTIPATH have u: "nx_unit ?act NXAST_MULTIPATH" and l: "length ?act = 32"
    and r: "multipath_from_openflow E ?act = (None, m)"
    by simp_all
  from l have "decode_openflow10_action ?act = Inr OFPUTIL_NXAST_MULTIPATH"
    by (intro decode10_nx_unit [OF u nxast_rows(6)]) simp_all
  with OFPACT_MULTIPATH r show ?thesis
    by (simp add: w ofpact_from_openflow10_def reparsed10_def ofpact_put_def)
next
  case (OFPACT_AUTOPATH m)
  assume e: "expressible10 E (type a)"
  let ?act = "autopath_to_openflow E m"
  from OFPACT_AUTOPATH have w: "wire10 E a = ?act" by (simp add: wire10_def emit10_defs)
  from e OFPACT_AUTOPATH have u: "nx_unit ?act NXAST_AUTOPATH" and l: "length ?act = 24"
    and r: "autopath_from_openflow E ?act = (None, m)"
    by simp_all
  from l have "decode_openflow10_action ?act = Inr OFPUTIL_NXAST_AUTOPATH"
    by (intro decode10_nx_unit [OF u nxast_rows(7)]) simp_all
  with OFPACT_AUTOPATH r show ?thesis
    by (simp add: w ofpact_from_openflow10_def reparsed10_def ofpact_put_def)
next
  case (OFPACT_SET_TUNNEL tun_id)
  then show ?thesis
    by (simp add: wire10_def emit10_defs ofpact_from_openflow10_def decode_openflow10_action_def
          decode_nxast_action_def nx_action_header_def nxast_actions_def
          ofpact_put_compat_def reparsed10_def ucast_le_uint32)
next
  case (OFPACT_RESUBMIT in_port table_id)
  then show ?thesis
    by (simp add: wire10_def emit10_defs ofpact_from_openflow10_def decode_openflow10_action_def
          decode_nxast_action_def nx_action_header_def nxast_actions_def
          ofpact_put_compat_def reparsed10_def resubmit_from_openflow_def
          resubmit_table_from_openflow_def nth_append zeros_simps)
qed (simp_all add: wire10_def emit10_defs ofpact_from_openflow10_def decode_openflow10_action_def
          ofpat10_actions_def decode_nxast_action_def nx_action_header_def nxast_actions_def
          output_from_openflow10_def enqueue_from_openflow10_def
          fin_timeout_from_openflow_def controller_from_openflow_def
          ofpact_put_def reparsed10_def nth_append not_masks)

lemma ntohs_append: "2 \<le> length xs \<Longrightarrow> ntohs (xs @ ys) = ntohs xs"
proof -
  assume "2 \<le> length xs"
  then obtain x y zs where "xs = x # y # zs"
    by (cases xs; cases "tl xs") auto
  then show ?thesis by (simp add: ntohs_def)
qed

lemma loop_step:
  assumes u: "unit_ok act" and f: "f act out = (OK, out1)" and l: "length act div 8 \<le> left"
  shows "ofpacts_from_openflow (act @ tl_bytes) left out f
       = ofpacts_from_openflow tl_bytes (left - length act div 8) out1 f"
proof -
  from u have len: "unat (ntohs (drop 2 act)) = length act" and m8: "length act mod 8 = 0"
    and g8: "8 \<le> length act"
    by (simp_all add: unit_ok_def)
  from g8 have hdr: "ntohs (drop 2 (act @ tl_bytes)) = ntohs (drop 2 act)"
    by (simp add: ntohs_append)
  from g8 l have pos: "0 < left" by (cases left) auto
  from len m8 g8 l pos have v: "action_is_valid (act @ tl_bytes) left"
    by (simp add: action_is_valid_def Let_def hdr del: drop_append)
  from v pos f show ?thesis
    by (subst ofpacts_from_openflow.simps, simp only: hdr len Let_def, simp)
qed

lemma roundtrip_list:
  assumes "\<forall>a \<in> set L. expressible10 E (type a)" and "type e = OFPACT_END"
  shows "\<exists>bytes. ofpacts_to_openflow10 E (L @ e # after) out0 = Some (out0 @ bytes)
           \<and> length bytes mod 8 = 0
           \<and> (\<forall>out. ofpacts_from_openflow bytes (length bytes div 8) out (ofpact_from_openflow10 E)
                      = (OK, out @ map reparsed10 L @ [END_entry]))"
  using assms
proof (induction L arbitrary: out0)
  case Nil
  then show ?case
    by (simp add: ofpacts_from_openflow.simps ofpact_put_def)
next
  case (Cons a L)
  from Cons.prems have ea: "expressible10 E (type a)" and eL: "\<forall>a \<in> set L. expressible10 E (type a)"
    by simp_all
  from ea have notend: "type a \<noteq> OFPACT_END" by auto
  let ?act = "wire10 E a"
  from wire10_unit_ok [OF ea] have u: "unit_ok ?act" .
  from Cons.IH [OF eL Cons.prems(2), of "out0 @ ?act"] obtain bytes where
    h: "ofpacts_to_openflow10 E (L @ e # after) (out0 @ ?act) = Some ((out0 @ ?act) @ bytes)
      \<and> length bytes mod 8 = 0
      \<and> (\<forall>out. ofpacts_from_openflow bytes (length bytes div 8) out (ofpact_from_openflow10 E)
                      = (OK, out @ map reparsed10 L @ [END_entry]))" ..
  then have emit: "ofpacts_to_openflow10 E (L @ e # after) (out0 @ ?act)
                     = Some ((out0 @ ?act) @ bytes)"
    and b8: "length bytes mod 8 = 0"
    and parse: "ofpacts_from_openflow bytes (length bytes div 8) out (ofpact_from_openflow10 E)
                      = (OK, out @ map reparsed10 L @ [END_entry])" for out
    by simp_all
  from u have a8: "length ?act mod 8 = 0" by (simp add: unit_ok_def)
  from a8 b8 have d: "(length ?act + length bytes) div 8 - length ?act div 8 = length bytes div 8"
    and le: "length ?act div 8 \<le> (length ?act + length bytes) div 8"
    by (auto simp: mod_eq_0_iff_dvd)
  have p1: "ofpacts_from_openflow (?act @ bytes) (length (?act @ bytes) div 8) out
          (ofpact_from_openflow10 E)
        = (OK, out @ map reparsed10 (a # L) @ [END_entry])" for out
    using loop_step [where f = "ofpact_from_openflow10 E" and act = ?act and out = out
                       and left = "(length ?act + length bytes) div 8" and tl_bytes = bytes,
                     OF u parse_wire10 [OF ea, of out]]
      le d parse [of "out @ [reparsed10 a]"]
    by simp
  from a8 b8 have p2: "length (?act @ bytes) mod 8 = 0"
    by (auto simp: mod_eq_0_iff_dvd)
  from notend emit emit_appends [OF ea, of out0]
  have p3: "ofpacts_to_openflow10 E ((a # L) @ e # after) out0 = Some (out0 @ ?act @ bytes)"
    by simp
  show ?case
  proof (intro exI conjI allI)
    show "ofpacts_to_openflow10 E ((a # L) @ e # after) out0 = Some (out0 @ ?act @ bytes)"
      by (rule p3)
    show "length (?act @ bytes) mod 8 = 0" by (rule p2)
    fix out
    show "ofpacts_from_openflow (?act @ bytes) (length (?act @ bytes) div 8) out
            (ofpact_from_openflow10 E)
          = (OK, out @ map reparsed10 (a # L) @ [END_entry])"
      by (rule p1)
  qed
qed

text \<open>
  C3 (amended).  For a list \<open>L\<close> of expressible entries followed by \<^verbatim>\<open>OFPACT_END\<close>, the
  1.0 emitter returns, and the 1.0 parser reads the bytes it appended back into
  \<open>map reparsed10 L\<close> followed by \<^verbatim>\<open>OFPACT_END\<close>: every entry keeps its type and payload
  and gets the compat hint of the NX opcode written for it (none for an entry that
  has no alternative opcodes), except that a note whose action is not a multiple of 8
  bytes comes back longer by the zero padding.  What follows the first
  \<^verbatim>\<open>OFPACT_END\<close> in memory is not written.
\<close>

theorem roundtrip10:
  assumes "\<forall>a \<in> set L. expressible10 E (type a)" and "type e = OFPACT_END"
  shows "\<exists>bytes. ofpacts_to_openflow10 E (L @ e # after) out0 = Some (out0 @ bytes)
           \<and> ofpacts_pull_openflow10 E (bytes @ rest) (length bytes)
               = (OK, rest, map reparsed10 L @ [END_entry])
           \<and> (\<forall>a \<in> set L. (\<forall>data. type a = OFPACT_NOTE data \<longrightarrow> note_pad data = 0)
                 \<longrightarrow> type (reparsed10 a) = type a)"
proof -
  from roundtrip_list [OF assms, of after out0] obtain bytes where
    h: "ofpacts_to_openflow10 E (L @ e # after) out0 = Some (out0 @ bytes)
           \<and> length bytes mod 8 = 0
           \<and> (\<forall>out. ofpacts_from_openflow bytes (length bytes div 8) out (ofpact_from_openflow10 E)
                      = (OK, out @ map reparsed10 L @ [END_entry]))" ..
  then have emit: "ofpacts_to_openflow10 E (L @ e # after) out0 = Some (out0 @ bytes)" and
    b8: "length bytes mod 8 = 0" and
    parse: "ofpacts_from_openflow bytes (length bytes div 8) [] (ofpact_from_openflow10 E)
                      = (OK, map reparsed10 L @ [END_entry])"
    by simp_all
  from b8 parse have pull: "ofpacts_pull_openflow10 E (bytes @ rest) (length bytes)
               = (OK, rest, map reparsed10 L @ [END_entry])"
    by (simp add: ofpacts_pull_openflow10_def ofpbuf_try_pull_def ofpacts_from_openflow10_def)
  have same: "(\<forall>data. type a = OFPACT_NOTE data \<longrightarrow> note_pad data = 0)
                 \<longrightarrow> type (reparsed10 a) = type a" for a
    by (cases "type a") (simp_all add: reparsed10_def zeros_def)
  show ?thesis
  proof (intro exI conjI ballI)
    show "ofpacts_to_openflow10 E (L @ e # after) out0 = Some (out0 @ bytes)" by (rule emit)
    show "ofpacts_pull_openflow10 E (bytes @ rest) (length bytes)
               = (OK, rest, map reparsed10 L @ [END_entry])" by (rule pull)
    fix a
    show "(\<forall>data. type a = OFPACT_NOTE data \<longrightarrow> note_pad data = 0)
                 \<longrightarrow> type (reparsed10 a) = type a" by (rule same)
  qed
qed

theorem roundtrip10_witness:
  "expressible10 ext_spec (OFPACT_OUTPUT 2 0)
   \<and> expressible10 ext_spec (OFPACT_SET_TUNNEL 5)
   \<and> expressible10 ext_spec (OFPACT_NOTE [1, 2, 3, 4, 5, 6])
   \<and> ofpacts_to_openflow10 ext_spec
        [put_entry (OFPACT_OUTPUT 2 0), put_entry (OFPACT_SET_TUNNEL 5),
         put_entry (OFPACT_NOTE [1, 2, 3, 4, 5, 6]), END_entry] []
     = Some [0, 0, 0, 8, 0, 2, 0, 0,
             0xff, 0xff, 0, 16, 0, 0, 0x23, 0x20, 0, 2, 0, 0, 0, 0, 0, 5,
             0xff, 0xff, 0, 16, 0, 0, 0x23, 0x20, 0, 8, 1, 2, 3, 4, 5, 6]
   \<and> ofpacts_pull_openflow10 ext_spec
            [0, 0, 0, 8, 0, 2, 0, 0,
             0xff, 0xff, 0, 16, 0, 0, 0x23, 0x20, 0, 2, 0, 0, 0, 0, 0, 5,
             0xff, 0xff, 0, 16, 0, 0, 0x23, 0x20, 0, 8, 1, 2, 3, 4, 5, 6] 40
     = (OK, [],
        [put_entry (OFPACT_OUTPUT 2 0),
         \<lparr>compat = OFPUTIL_NXAST_SET_TUNNEL, type = OFPACT_SET_TUNNEL 5\<rparr>,
         put_entry (OFPACT_NOTE [1, 2, 3, 4, 5, 6]), END_entry])"
  using roundtrip10 [of "[put_entry (OFPACT_OUTPUT 2 0), put_entry (OFPACT_SET_TUNNEL 5),
         put_entry (OFPACT_NOTE [1, 2, 3, 4, 5, 6])]" ext_spec END_entry "[]" "[]" "[]"]
  by (simp add: emit10_defs nx_action_header_def note_pad_def
        reparsed10_def parse_eval parse10_eval eval_defs)

text \<open>
  The claim as stated fails for a note of three bytes: it is written with three bytes
  of padding and read back as a note of six bytes.
\<close>

theorem roundtrip10_counterexample:
  "ofpacts_to_openflow10 ext_spec [put_entry (OFPACT_NOTE [0xaa, 0xbb, 0xcc]), END_entry] []
     = Some [0xff, 0xff, 0, 16, 0, 0, 0x23, 0x20, 0, 8, 0xaa, 0xbb, 0xcc, 0, 0, 0]
   \<and> ofpacts_pull_openflow10 ext_spec
        [0xff, 0xff, 0, 16, 0, 0, 0x23, 0x20, 0, 8, 0xaa, 0xbb, 0xcc, 0, 0, 0] 16
     = (OK, [], [put_entry (OFPACT_NOTE [0xaa, 0xbb, 0xcc, 0, 0, 0]), END_entry])"
  by (simp add: emit10_defs nx_action_header_def parse_eval parse10_eval eval_defs)


end
